theory Spec2Isabelle
  imports Complex_Main "HOL-Library.Sublist" "HOL-Library.Code_Target_Nat"
begin

section \<open>Python values\<close>

text \<open>
  The scene generator of \<^verbatim>\<open>backend/services/scene_generator.py\<close> reads its inputs
  from dictionaries typed \<^verbatim>\<open>Dict[str, Any]\<close>. The values it can meet are modelled by
  a universe of JSON-like Python values: \<^verbatim>\<open>None\<close>, booleans, unbounded integers,
  strings, lists and dictionaries with string keys (floats are left out). A Python
  \<^verbatim>\<open>str\<close> is modelled by its UTF-8 encoding, one \<^typ>\<open>char\<close> per byte; a dictionary
  by an association list in insertion order, looked up with \<^const>\<open>map_of\<close>.
\<close>

datatype pyval =
    PNone
  | PBool bool
  | PInt int
  | PStr string
  | PList "pyval list"
  | PDict "(string \<times> pyval) list"

type_synonym pydict = "(string \<times> pyval) list"

text \<open>
  The exceptions the function can meet. \<open>RemoteError\<close> stands for whatever obtaining
  or calling the HTTP client raises (configuration, transport, authentication, provider
  errors): all of them derive from \<^verbatim>\<open>Exception\<close>.
\<close>

datatype py_error = TypeError | AttributeError | IndexError | ValueError | RemoteError

text \<open>
  A computation that may raise is a value of \<open>py_error + 'a\<close>; \<open>bind_result\<close> runs the
  next step on the result of the first, unless the first raised.
\<close>

fun bind_result :: "py_error + 'a \<Rightarrow> ('a \<Rightarrow> py_error + 'b) \<Rightarrow> py_error + 'b" where
  "bind_result (Inl e) f = Inl e"
| "bind_result (Inr x) f = f x"

text \<open>\<^verbatim>\<open>d.get(k, default)\<close> on a dictionary.\<close>

definition dict_get :: "pydict \<Rightarrow> string \<Rightarrow> pyval \<Rightarrow> pyval" where
  "dict_get d k dflt = (case map_of d k of None \<Rightarrow> dflt | Some v \<Rightarrow> v)"

text \<open>
  \<^verbatim>\<open>v.get(k, default)\<close> on an arbitrary value: only a dictionary has the method, every
  other value of the universe raises \<^verbatim>\<open>AttributeError\<close>.
\<close>

fun py_get :: "pyval \<Rightarrow> string \<Rightarrow> pyval \<Rightarrow> py_error + pyval" where
  "py_get (PDict d) k dflt = Inr (dict_get d k dflt)"
| "py_get v k dflt = Inl AttributeError"

text \<open>Truth value testing (\<^verbatim>\<open>if v\<close>, \<^verbatim>\<open>not v\<close>, \<^verbatim>\<open>a or b\<close>).\<close>

fun py_truthy :: "pyval \<Rightarrow> bool" where
  "py_truthy PNone = False"
| "py_truthy (PBool b) = b"
| "py_truthy (PInt n) = (n \<noteq> 0)"
| "py_truthy (PStr s) = (s \<noteq> [])"
| "py_truthy (PList xs) = (xs \<noteq> [])"
| "py_truthy (PDict d) = (d \<noteq> [])"

text \<open>\<^verbatim>\<open>a or b\<close> returns the first operand when it is truthy and the second otherwise.\<close>

definition py_or :: "pyval \<Rightarrow> pyval \<Rightarrow> pyval" where
  "py_or a b = (if py_truthy a then a else b)"

text \<open>
  \<^verbatim>\<open>v <= k\<close> for an integer literal \<open>k\<close>: integers compare, booleans compare as 0 and 1,
  every other value of the universe raises \<^verbatim>\<open>TypeError\<close>.
\<close>

fun py_le_int :: "pyval \<Rightarrow> int \<Rightarrow> py_error + bool" where
  "py_le_int (PInt n) k = Inr (n \<le> k)"
| "py_le_int (PBool b) k = Inr ((if b then 1 else 0) \<le> k)"
| "py_le_int v k = Inl TypeError"

section \<open>Python strings\<close>

text \<open>\<^verbatim>\<open>sep.join(xs)\<close> on a list of strings.\<close>

fun py_join :: "string \<Rightarrow> string list \<Rightarrow> string" where
  "py_join sep [] = []"
| "py_join sep [x] = x"
| "py_join sep (x # y # ys) = x @ sep @ py_join sep (y # ys)"

text \<open>
  The characters (code points) of a string: a UTF-8 lead byte together with the
  continuation bytes \<open>0x80\<close>..\<open>0xBF\<close> that follow it.
\<close>

definition is_cont :: "char \<Rightarrow> bool" where
  "is_cont c = (128 \<le> (of_char c :: nat) \<and> (of_char c :: nat) < 192)"

function utf8_chars :: "string \<Rightarrow> string list" where
  "utf8_chars [] = []"
| "utf8_chars (c # cs) = (c # takeWhile is_cont cs) # utf8_chars (dropWhile is_cont cs)"
  by pat_completeness auto
termination
  by (relation "measure length") (simp_all add: le_imp_less_Suc length_dropWhile_le)

text \<open>
  The characters \<^verbatim>\<open>str.isspace\<close> accepts, which \<^verbatim>\<open>str.strip()\<close> removes: U+0009..U+000D,
  U+001C..U+001F, U+0020, U+0085, U+00A0, U+1680, U+2000..U+200A, U+2028, U+2029, U+202F,
  U+205F and U+3000, each in UTF-8.
\<close>

definition py_whitespace :: "string list" where
  "py_whitespace =
    [[CHR 0x09], [CHR 0x0A], [CHR 0x0B], [CHR 0x0C], [CHR 0x0D],
     [CHR 0x1C], [CHR 0x1D], [CHR 0x1E], [CHR 0x1F], [CHR 0x20],
     [CHR 0xC2, CHR 0x85], [CHR 0xC2, CHR 0xA0], [CHR 0xE1, CHR 0x9A, CHR 0x80],
     [CHR 0xE2, CHR 0x80, CHR 0x80], [CHR 0xE2, CHR 0x80, CHR 0x81],
     [CHR 0xE2, CHR 0x80, CHR 0x82], [CHR 0xE2, CHR 0x80, CHR 0x83],
     [CHR 0xE2, CHR 0x80, CHR 0x84], [CHR 0xE2, CHR 0x80, CHR 0x85],
     [CHR 0xE2, CHR 0x80, CHR 0x86], [CHR 0xE2, CHR 0x80, CHR 0x87],
     [CHR 0xE2, CHR 0x80, CHR 0x88], [CHR 0xE2, CHR 0x80, CHR 0x89],
     [CHR 0xE2, CHR 0x80, CHR 0x8A], [CHR 0xE2, CHR 0x80, CHR 0xA8],
     [CHR 0xE2, CHR 0x80, CHR 0xA9], [CHR 0xE2, CHR 0x80, CHR 0xAF],
     [CHR 0xE2, CHR 0x81, CHR 0x9F], [CHR 0xE3, CHR 0x80, CHR 0x80]]"

definition is_space :: "string \<Rightarrow> bool" where
  "is_space c = (c \<in> set py_whitespace)"

text \<open>\<^verbatim>\<open>s.strip()\<close>: whitespace characters are removed from both ends.\<close>

definition py_strip :: "string \<Rightarrow> string" where
  "py_strip s = concat (rev (dropWhile is_space (rev (dropWhile is_space (utf8_chars s)))))"

text \<open>
  \<^verbatim>\<open>s.split(sep)\<close>: the pieces between the occurrences of \<open>sep\<close>, found from the left
  and not overlapping. Python raises \<^verbatim>\<open>ValueError\<close> on an empty separator; the only
  call of the source passes \<^verbatim>\<open>". "\<close>, and the model leaves the text unsplit there.
\<close>

function py_split :: "string \<Rightarrow> string \<Rightarrow> string list" where
  "py_split sep [] = [[]]"
| "py_split sep (c # cs) =
     (if sep \<noteq> [] \<and> prefix sep (c # cs)
      then [] # py_split sep (drop (length sep) (c # cs))
      else (case py_split sep cs of [] \<Rightarrow> [[c]] | p # ps \<Rightarrow> (c # p) # ps))"
  by pat_completeness auto
termination
  by (relation "measure (\<lambda>(sep, s). length s)") (auto simp: Suc_le_eq)

text \<open>\<^verbatim>\<open>s.endswith('.')\<close>.\<close>

definition ends_with_period :: "string \<Rightarrow> bool" where
  "ends_with_period s = (s \<noteq> [] \<and> last s = CHR ''.'')"

section \<open>The character tables of the runtime\<close>

text \<open>
  Two operations of Python strings consult the Unicode character database of the
  interpreter, which is not part of the repository: the case mapping of
  \<^verbatim>\<open>str.capitalize\<close> and the classification of printable characters that \<^verbatim>\<open>repr\<close>
  uses. Both are parameters of the model, and they are consulted for non-ASCII
  characters only: on ASCII text the model computes by itself. \<open>capitalized\<close> is
  \<^verbatim>\<open>s.capitalize()\<close> for a string with a non-ASCII character, \<open>printable\<close> is
  \<^verbatim>\<open>isprintable\<close> for a code point from 128 on.
\<close>

record unicode_tables =
  capitalized :: "string \<Rightarrow> string"
  printable :: "nat \<Rightarrow> bool"

text \<open>
  Tables for concrete runs on ASCII text: such a run consults neither field, so that
  its result is the same with any tables.
\<close>

definition ascii_tables :: unicode_tables where
  "ascii_tables = \<lparr>capitalized = (\<lambda>s. s), printable = (\<lambda>cp. True)\<rparr>"

definition is_ascii :: "char \<Rightarrow> bool" where
  "is_ascii c = ((of_char c :: nat) < 128)"

text \<open>
  \<^verbatim>\<open>s.capitalize()\<close>: the first character in upper case, the others in lower case.
\<close>

definition ascii_upper :: "char \<Rightarrow> char" where
  "ascii_upper c =
     (if 97 \<le> (of_char c :: nat) \<and> (of_char c :: nat) \<le> 122 then char_of ((of_char c :: nat) - 32) else c)"

definition ascii_lower :: "char \<Rightarrow> char" where
  "ascii_lower c =
     (if 65 \<le> (of_char c :: nat) \<and> (of_char c :: nat) \<le> 90 then char_of ((of_char c :: nat) + 32) else c)"

definition capitalize :: "unicode_tables \<Rightarrow> string \<Rightarrow> string" where
  "capitalize u s =
     (if list_all is_ascii s
      then (case s of [] \<Rightarrow> [] | c # cs \<Rightarrow> ascii_upper c # map ascii_lower cs)
      else capitalized u s)"

text \<open>
  \<^verbatim>\<open>v.capitalize()\<close> on an arbitrary value: only a string has the method.
\<close>

fun py_capitalize :: "unicode_tables \<Rightarrow> pyval \<Rightarrow> py_error + string" where
  "py_capitalize u (PStr s) = Inr (capitalize u s)"
| "py_capitalize u v = Inl AttributeError"

section \<open>Formatting values\<close>

text \<open>
  The decimal digits of a natural number. Converting an integer of more than 4300
  digits to a string raises \<^verbatim>\<open>ValueError\<close> (the default of
  \<^verbatim>\<open>sys.set_int_max_str_digits\<close>); the sign does not count.
\<close>

fun dec_nat :: "nat \<Rightarrow> string" where
  "dec_nat n = (if n < 10 then [char_of (48 + n)] else dec_nat (n div 10) @ [char_of (48 + n mod 10)])"

definition int_max_str_digits :: nat where
  "int_max_str_digits = 4300"

definition str_int :: "int \<Rightarrow> py_error + string" where
  "str_int i =
     (let digits = dec_nat (nat \<bar>i\<bar>)
      in if length digits > int_max_str_digits then Inl ValueError
         else Inr (if i < 0 then CHR ''-'' # digits else digits))"

text \<open>
  The \<^verbatim>\<open>repr\<close> of a string, character by character. An ASCII character is escaped when it
  is the backslash, the chosen quote or a control character. Another character is kept
  when the tables call it printable and is otherwise written \<^verbatim>\<open>\xNN\<close>, \<^verbatim>\<open>\uNNNN\<close> or
  \<^verbatim>\<open>\UNNNNNNNN\<close> from its code point.
\<close>

definition hex_digit :: "nat \<Rightarrow> char" where
  "hex_digit d = (if d < 10 then char_of (48 + d) else char_of (87 + d))"

fun hex_pad :: "nat \<Rightarrow> nat \<Rightarrow> string" where
  "hex_pad 0 n = []"
| "hex_pad (Suc k) n = hex_pad k (n div 16) @ [hex_digit (n mod 16)]"

definition code_point :: "string \<Rightarrow> nat" where
  "code_point ch =
     (case ch of
        [] \<Rightarrow> 0
      | b # bs \<Rightarrow>
          foldl (\<lambda>acc c. acc * 64 + ((of_char c :: nat) - 128))
            ((of_char b :: nat)
               - (if bs = [] then 0 else if length bs = 1 then 192
                  else if length bs = 2 then 224 else 240))
            bs)"

definition escape_code_point :: "nat \<Rightarrow> string" where
  "escape_code_point cp =
     (if cp < 256 then [CHR 0x5C, CHR ''x''] @ hex_pad 2 cp
      else if cp < 65536 then [CHR 0x5C, CHR ''u''] @ hex_pad 4 cp
      else [CHR 0x5C, CHR ''U''] @ hex_pad 8 cp)"

definition repr_ascii :: "char \<Rightarrow> char \<Rightarrow> string" where
  "repr_ascii q c =
     (if c = CHR 0x5C then [CHR 0x5C, CHR 0x5C]
      else if c = q then [CHR 0x5C, q]
      else if c = CHR 0x09 then [CHR 0x5C, CHR ''t'']
      else if c = CHR 0x0A then [CHR 0x5C, CHR ''n'']
      else if c = CHR 0x0D then [CHR 0x5C, CHR ''r'']
      else if (of_char c :: nat) < 32 \<or> c = CHR 0x7F
        then escape_code_point (of_char c)
      else [c])"

definition repr_char :: "unicode_tables \<Rightarrow> char \<Rightarrow> string \<Rightarrow> string" where
  "repr_char u q ch =
     (case ch of
        [c] \<Rightarrow>
          (if is_ascii c then repr_ascii q c
           else if printable u (code_point ch) then ch
           else escape_code_point (code_point ch))
      | _ \<Rightarrow>
          (if printable u (code_point ch) then ch else escape_code_point (code_point ch)))"

definition repr_str :: "unicode_tables \<Rightarrow> string \<Rightarrow> string" where
  "repr_str u s =
     (let q = (if CHR 0x27 \<in> set s \<and> CHR 0x22 \<notin> set s then CHR 0x22 else CHR 0x27)
      in q # concat (map (repr_char u q) (utf8_chars s)) @ [q])"

text \<open>The results of a sequence of computations, up to the first exception.\<close>

fun all_results :: "(py_error + 'a) list \<Rightarrow> py_error + 'a list" where
  "all_results [] = Inr []"
| "all_results (r # rs) =
     (case r of
        Inl e \<Rightarrow> Inl e
      | Inr y \<Rightarrow> (case all_results rs of Inl e \<Rightarrow> Inl e | Inr ys \<Rightarrow> Inr (y # ys)))"

text \<open>
  \<^verbatim>\<open>repr(v)\<close> and \<^verbatim>\<open>str(v)\<close>. A replacement field \<^verbatim>\<open>{v}\<close> of an f-string renders
  \<^verbatim>\<open>str(v)\<close>: a string as it is, an integer in decimal, a container through the
  \<^verbatim>\<open>repr\<close> of its elements, from left to right.
\<close>

fun py_repr :: "unicode_tables \<Rightarrow> pyval \<Rightarrow> py_error + string" where
  "py_repr u PNone = Inr ''None''"
| "py_repr u (PBool b) = Inr (if b then ''True'' else ''False'')"
| "py_repr u (PInt i) = str_int i"
| "py_repr u (PStr s) = Inr (repr_str u s)"
| "py_repr u (PList xs) =
     bind_result (all_results (map (py_repr u) xs))
       (\<lambda>items. Inr (''['' @ py_join '', '' items @ '']''))"
| "py_repr u (PDict d) =
     bind_result
       (all_results
          (map (\<lambda>(k, v). bind_result (py_repr u v) (\<lambda>r. Inr (repr_str u k @ '': '' @ r))) d))
       (\<lambda>items. Inr (''{'' @ py_join '', '' items @ ''}''))"

fun py_str :: "unicode_tables \<Rightarrow> pyval \<Rightarrow> py_error + string" where
  "py_str u (PStr s) = Inr s"
| "py_str u v = py_repr u v"

section \<open>Slices, joins and iteration over values\<close>

text \<open>
  The items of the slice \<^verbatim>\<open>v[:n]\<close>: the first \<open>n\<close> elements of a list, the first \<open>n\<close>
  characters of a string (each a string of its own when iterated or joined). Numbers
  and booleans are not subscriptable and a dictionary cannot be indexed by a slice:
  \<^verbatim>\<open>TypeError\<close> (a \<^verbatim>\<open>KeyError\<close> for the dictionary from Python 3.12 on).
\<close>

fun slice_items :: "nat \<Rightarrow> pyval \<Rightarrow> py_error + pyval list" where
  "slice_items n (PList xs) = Inr (take n xs)"
| "slice_items n (PStr s) = Inr (map PStr (take n (utf8_chars s)))"
| "slice_items n v = Inl TypeError"

text \<open>\<^verbatim>\<open>sep.join(items)\<close> raises \<^verbatim>\<open>TypeError\<close> unless every item is a string.\<close>

fun str_items :: "pyval list \<Rightarrow> py_error + string list" where
  "str_items [] = Inr []"
| "str_items (PStr s # vs) = (case str_items vs of Inl e \<Rightarrow> Inl e | Inr ss \<Rightarrow> Inr (s # ss))"
| "str_items (v # vs) = Inl TypeError"

definition join_items :: "string \<Rightarrow> pyval list \<Rightarrow> py_error + string" where
  "join_items sep vs = bind_result (str_items vs) (\<lambda>ss. Inr (py_join sep ss))"

text \<open>A loop that collects one result per element and stops at the first exception.\<close>

definition collect :: "('a \<Rightarrow> py_error + 'b) \<Rightarrow> 'a list \<Rightarrow> py_error + 'b list" where
  "collect f xs = all_results (map f xs)"

section \<open>The fields gathered from the context\<close>

text \<open>
  The local variables \<^verbatim>\<open>generate_scene_description\<close> binds before it builds the prompt
  (lines 35 to 57), which it then passes to \<^verbatim>\<open>build_scene_generator_prompt\<close> as keyword
  arguments of the same names.
\<close>

record scene_fields =
  location_name :: pyval
  location_role :: pyval
  location_summary :: pyval
  signature_products :: pyval
  character_name :: pyval
  character_level :: pyval
  character_background :: pyval
  character_class :: pyval
  time_of_day :: pyval
  weather :: pyval
  reputation :: pyval
  is_wanted :: pyval
  early_signs :: pyval
  quest_hooks :: "pydict list"

text \<open>
  \<^verbatim>\<open>if not available_quest_hooks: available_quest_hooks = []\<close>: both \<^verbatim>\<open>None\<close> and the
  empty list become the empty list.
\<close>

definition default_hooks :: "pydict list option \<Rightarrow> pydict list" where
  "default_hooks available_quest_hooks =
     (case available_quest_hooks of None \<Rightarrow> [] | Some hooks \<Rightarrow> hooks)"

definition extract_fields ::
  "pydict \<Rightarrow> pydict \<Rightarrow> pydict \<Rightarrow> pydict \<Rightarrow> pydict list option \<Rightarrow> py_error + scene_fields" where
  "extract_fields location character_state world_state world_blueprint available_quest_hooks =
     (let global_threat = dict_get world_blueprint ''global_threat'' (PDict [])
      in case py_get global_threat ''early_signs_near_starting_town'' (PList []) of
           Inl e \<Rightarrow> Inl e
         | Inr signs \<Rightarrow> Inr
            \<lparr>location_name = dict_get location ''name'' (PStr ''Unknown''),
             location_role = dict_get location ''role'' (PStr ''settlement''),
             location_summary = dict_get location ''summary'' (PStr ''A mysterious place''),
             signature_products = dict_get location ''signature_products'' (PList []),
             character_name = dict_get character_state ''name'' (PStr ''Adventurer''),
             character_level = dict_get character_state ''level'' (PInt 1),
             character_background = dict_get character_state ''background'' (PStr ''wanderer''),
             character_class =
               dict_get character_state ''class''
                 (dict_get character_state ''class_'' (PStr ''unknown'')),
             time_of_day = dict_get world_state ''time_of_day'' (PStr ''midday''),
             weather = dict_get world_state ''weather'' (PStr ''clear''),
             reputation = dict_get character_state ''reputation'' (PDict []),
             is_wanted =
               py_or (dict_get world_state ''guards_hostile'' (PBool False))
                     (dict_get world_state ''city_hostile'' (PBool False)),
             early_signs = signs,
             quest_hooks = default_hooks available_quest_hooks\<rparr>)"

section \<open>The prompt\<close>

text \<open>The fixed text of the template, line by line.\<close>

definition prompt_failure_conditions :: "string list" where
  \<open>prompt_failure_conditions =
    [''UNIFIED DM SYSTEM PROMPT v6.0 (Scene Generation Mode)'',
     '''',
     [CHR 0xF0, CHR 0x9F, CHR 0x9A, CHR 0xA8] @ [CHR 0xF0, CHR 0x9F, CHR 0x9A, CHR 0xA8] @ [CHR 0xF0, CHR 0x9F, CHR 0x9A, CHR 0xA8] @ '' CRITICAL FAILURE CONDITIONS - YOU WILL FAIL IF: '' @ [CHR 0xF0, CHR 0x9F, CHR 0x9A, CHR 0xA8] @ [CHR 0xF0, CHR 0x9F, CHR 0x9A, CHR 0xA8] @ [CHR 0xF0, CHR 0x9F, CHR 0x9A, CHR 0xA8],
     ''1. You don'' @ [CHR 0x27] @ ''t give EXACTLY 3 directions: left, right, and ahead'',
     ''2. You use flowery language or banned AI phrases'',
     ''3. You write more than 8 sentences'',
     ''4. You use third person or omniscient narration'',
     '''',
     ''COUNT YOUR DIRECTIONS BEFORE RESPONDING: Must be LEFT + RIGHT + AHEAD = 3'',
     '''',
     ''---'',
     '''']\<close>

definition prompt_scene_types :: "string list" where
  \<open>prompt_scene_types =
    [''- arrival: First time entering location'',
     ''- return: Returning to previously visited location'',
     ''- transition: Moving from one area to another within same location'',
     ''- time_skip: Same location, time has passed'',
     '''',
     ''---'',
     '''']\<close>

definition prompt_rules :: "string list" where
  \<open>prompt_rules =
    ['''',
     ''---'',
     '''',
     ''v4.1 NARRATION RULES:'',
     '''',
     ''POV Discipline:'',
     [CHR 0xE2, CHR 0x9C, CHR 0x85] @ '' Use second person ("you") ONLY'',
     [CHR 0xE2, CHR 0x9C, CHR 0x85] @ '' Describe ONLY what the player can see, hear, smell, feel'',
     [CHR 0xE2, CHR 0x9D, CHR 0x8C] @ '' NEVER use omniscient narration'',
     [CHR 0xE2, CHR 0x9D, CHR 0x8C] @ '' NEVER describe NPC thoughts or hidden information'',
     [CHR 0xE2, CHR 0x9D, CHR 0x8C] @ '' NEVER use third person'',
     '''',
     ''Sentence Limits:'',
     ''- Travel/Scene description: 4'' @ [CHR 0xE2, CHR 0x80, CHR 0x93] @ ''8 sentences (v4.1 spec)'',
     ''- Max 2 sensory details per sentence'',
     ''- No repeated adjectives'',
     ''- No over-description'',
     '''',
     ''---'',
     '''',
     ''OUTPUT REQUIREMENTS:'',
     ''- Write 4-8 sentences TOTAL'',
     ''- Sentence 1: Sensory detail (sight/sound) appropriate to time/weather'',
     ''- Sentences 2-4: **SPATIAL EXPLORATION CUES (YOU WILL FAIL IF YOU DON'' @ [CHR 0x27] @ ''T DO THIS):**'',
     ''  * SENTENCE 2: "To your left, [location/NPC]."'',
     ''  * SENTENCE 3: "To your right, [location/NPC]."'',
     ''  * SENTENCE 4: "Straight ahead, [location/NPC]." OR "Ahead of you, [location/NPC]."'',
     ''  * YOU MUST USE ALL THREE DIRECTIONS OR YOU FAIL'',
     ''  * Each must be a separate sentence starting with the direction'',
     ''- Sentences 5-8: Short, direct arrival (NO flowery language, NO metaphors, NO invented emotions)'',
     '''',
     ''---'',
     '''',
     ''STYLE RULES:'',
     ''- Use second person ("You arrive...")'',
     ''- **MANDATORY: Give exactly 3 spatial directions (left, right, ahead/center/straight)**'',
     ''- Show don'' @ [CHR 0x27] @ ''t tell - NO metaphors, NO invented emotions'',
     ''- Short, direct sentences (max 15 words)'',
     ''- Make quest hooks subtle (environmental clues, NPC behavior, overheard fragments)'',
     ''- Match time of day (morning: fresh activity, night: quieter, shadowy)'',
     ''- Simple, clear language: "You arrive in town" NOT "You step into this hub of mystery"'',
     '''',
     ''---'',
     '''',
     ''BANNED PHRASES (v4.1 spec):'',
     [CHR 0xE2, CHR 0x9D, CHR 0x8C] @ '' "you notice", "you feel a sense", "it seems that", "uncertainty dances"'',
     [CHR 0xE2, CHR 0x9D, CHR 0x8C] @ '' "shadows linger", "whispers of", "feeling like a gamble", "beyond sight"'',
     [CHR 0xE2, CHR 0x9D, CHR 0x8C] @ '' "mysterious presence", "tendrils of darkness", "shrouded in mystery"'',
     [CHR 0xE2, CHR 0x9D, CHR 0x8C] @ '' "emerge from", "filters through", "thick with opportunity"'',
     [CHR 0xE2, CHR 0x9C, CHR 0x85] @ '' Use concrete nouns: "tavern", "market", "guard post", "alley", "blacksmith"'',
     '''',
     ''---'',
     '''',
     ''EXAMPLES:'',
     '''',
     [CHR 0xE2, CHR 0x9C, CHR 0x85] @ '' PERFECT EXAMPLE (COUNT THE DIRECTIONS - MUST BE 3):'',
     ''"You enter Darkeroot as midday sun warms the streets. To your left, a blacksmith hammers at his forge. To your right, the Rusty Blade tavern door stands open. Straight ahead, the town square has market stalls. You walk into town."'',
     '''',
     ''Structure breakdown:'',
     ''- Sentence 1: "You enter... sun warms..." (arrival + sensory)'',
     ''- Sentence 2: "To your left, blacksmith..." (LEFT)'',
     ''- Sentence 3: "To your right, tavern..." (RIGHT)  '',
     ''- Sentence 4: "Straight ahead, market..." (AHEAD)'',
     ''- Sentence 5: "You walk..." (simple arrival)'',
     '''',
     [CHR 0xE2, CHR 0x9C, CHR 0x85] @ '' GOOD (wanted status, 3 directions):'',
     ''"You return to Fort Dawnlight as evening falls. To your left, guards at the gate eye passing travelers. To your right, an alley leads toward the docks. Ahead, the main road runs through the market district. You pull your hood low and walk quickly."'',
     '''',
     [CHR 0xE2, CHR 0x9D, CHR 0x8C] @ '' BAD (only 1 direction, flowery language):'',
     ''"You arrive in Darkeroot where shadows dance and mystery lingers. To your right, an alleyway beckons with whispered secrets. Uncertainty dances in your chest as you take your first tentative steps into this hub of intrigue." '',
     [CHR 0xE2, CHR 0x86, CHR 0x90] @ '' WRONG: Only one direction, uses "dances", "whispered secrets", "uncertainty", invented emotions'',
     '''',
     ''---'',
     '''',
     ''CRITICAL REMINDERS:'',
     ''1. '' @ [CHR 0xE2, CHR 0x9C, CHR 0x85] @ '' Is this second person POV?'',
     ''2. '' @ [CHR 0xE2, CHR 0x9C, CHR 0x85] @ '' Did I give EXACTLY 3 spatial directions (left, right, ahead)?'',
     ''3. '' @ [CHR 0xE2, CHR 0x9C, CHR 0x85] @ '' Is my sentence count 4-8?'',
     ''4. '' @ [CHR 0xE2, CHR 0x9C, CHR 0x85] @ '' Did I avoid banned phrases?'',
     ''5. '' @ [CHR 0xE2, CHR 0x9C, CHR 0x85] @ '' Did I avoid inventing player emotions?'',
     '''',
     ''Generate scene description now:'']\<close>

definition newline :: string where
  "newline = [CHR 0x0A]"

text \<open>
  \<^verbatim>\<open>"inexperienced" if character_level <= 3 else "seasoned" if character_level <= 7
  else "legendary"\<close>
\<close>

definition experience_level :: "pyval \<Rightarrow> py_error + string" where
  "experience_level level =
     (case py_le_int level 3 of
        Inl e \<Rightarrow> Inl e
      | Inr True \<Rightarrow> Inr ''inexperienced''
      | Inr False \<Rightarrow>
          (case py_le_int level 7 of
             Inl e \<Rightarrow> Inl e
           | Inr True \<Rightarrow> Inr ''seasoned''
           | Inr False \<Rightarrow> Inr ''legendary''))"

text \<open>
  One line per quest hook, for at most two hooks:
  \<^verbatim>\<open>f"- {hook_type.capitalize()}: {hook_desc}"\<close>.
\<close>

definition hook_line :: "unicode_tables \<Rightarrow> pydict \<Rightarrow> py_error + string" where
  "hook_line u hook =
     (let hook_type = dict_get hook ''type'' (PStr ''conversation'');
          hook_desc = dict_get hook ''description'' (PStr '''')
      in bind_result (py_capitalize u hook_type) (\<lambda>t.
         bind_result (py_str u hook_desc) (\<lambda>d.
         Inr (''- '' @ t @ '': '' @ d))))"

definition hooks_text :: "unicode_tables \<Rightarrow> pydict list \<Rightarrow> py_error + string" where
  "hooks_text u hooks =
     (if hooks \<noteq> []
      then bind_result (collect (hook_line u) (take 2 hooks))
             (\<lambda>hooks_list. Inr (py_join newline hooks_list))
      else Inr '''')"

text \<open>
  \<^verbatim>\<open>", ".join(signature_products[:3]) if signature_products else "various goods"\<close>
\<close>

definition products_text :: "pyval \<Rightarrow> py_error + string" where
  "products_text products =
     (if py_truthy products
      then bind_result (slice_items 3 products) (\<lambda>items. join_items '', '' items)
      else Inr ''various goods'')"

text \<open>
  \<^verbatim>\<open>chr(10).join([f"- {sign}" for sign in early_signs[:2]]) if early_signs else ""\<close>
\<close>

definition sign_line :: "unicode_tables \<Rightarrow> pyval \<Rightarrow> py_error + string" where
  "sign_line u sign = bind_result (py_str u sign) (\<lambda>s. Inr (''- '' @ s))"

definition signs_text :: "unicode_tables \<Rightarrow> pyval \<Rightarrow> py_error + string" where
  "signs_text u signs =
     (if py_truthy signs
      then bind_result (slice_items 2 signs) (\<lambda>items.
           bind_result (collect (sign_line u) items) (\<lambda>sign_lines.
           Inr (py_join newline sign_lines)))
      else Inr '''')"

text \<open>
  The lines of the template between the scene types and the narration rules. The
  replacement fields are rendered from top to bottom, the early signs last, and the
  first exception ends the rendering.
\<close>

definition context_lines ::
  "unicode_tables \<Rightarrow> scene_fields \<Rightarrow> string \<Rightarrow> string \<Rightarrow> string \<Rightarrow> py_error + string list" where
  \<open>context_lines u f experience hooks products =
     bind_result (py_str u (location_name f)) (\<lambda>name.
     bind_result (py_str u (location_role f)) (\<lambda>role.
     bind_result (py_str u (location_summary f)) (\<lambda>summary.
     bind_result (py_str u (time_of_day f)) (\<lambda>time.
     bind_result (py_str u (weather f)) (\<lambda>sky.
     bind_result (py_str u (character_name f)) (\<lambda>character.
     bind_result (py_str u (character_level f)) (\<lambda>level.
     bind_result (py_str u (character_background f)) (\<lambda>background.
     bind_result (py_str u (character_class f)) (\<lambda>cls.
     bind_result (signs_text u (early_signs f)) (\<lambda>signs.
     Inr
      [''LOCATION CONTEXT:'',
       ''- Name: '' @ name,
       ''- Role: '' @ role,
       ''- Base Description: '' @ summary,
       ''- Known For: '' @ products,
       ''- Time: '' @ time,
       ''- Weather: '' @ sky,
       '''',
       ''CHARACTER CONTEXT:'',
       ''- Name: '' @ character,
       ''- Level: '' @ level @ '' ('' @ experience @ '')'',
       ''- Background: '' @ background,
       ''- Class: '' @ cls,
       ''- Wanted/Hostile: ''
         @ (if py_truthy (is_wanted f) then ''YES - guards watching'' else ''No''),
       '''',
       (if quest_hooks f \<noteq> []
        then ''AVAILABLE QUEST HOOKS (weave 1-2 subtly into description):'' else ''''),
       (if quest_hooks f \<noteq> [] then hooks else ''''),
       '''',
       (if py_truthy (early_signs f) then ''THREAT CONTEXT (include 1 subtle sign):''
        else ''''),
       signs]))))))))))\<close>

text \<open>
  \<^verbatim>\<open>build_scene_generator_prompt\<close>: the experience tier, the hook lines and the
  products text are computed first, in this order; then the f-string is rendered. The
  first exception raised ends the call.
\<close>

definition build_scene_generator_prompt ::
  "unicode_tables \<Rightarrow> string \<Rightarrow> scene_fields \<Rightarrow> py_error + string" where
  "build_scene_generator_prompt u scene_type f =
     bind_result (experience_level (character_level f)) (\<lambda>experience.
     bind_result (hooks_text u (quest_hooks f)) (\<lambda>hooks.
     bind_result (products_text (signature_products f)) (\<lambda>products.
     bind_result (context_lines u f experience hooks products) (\<lambda>lines.
     Inr (py_join newline
           (prompt_failure_conditions
            @ [''SCENE TYPE: '' @ scene_type]
            @ prompt_scene_types
            @ lines
            @ prompt_rules))))))"

section \<open>The remote call and the scene\<close>

text \<open>
  The request passed to \<^verbatim>\<open>client.chat.completions.create\<close>: the model identifier, the
  messages as pairs of role and content, the sampling temperature (the decimal literal
  \<^verbatim>\<open>0.7\<close>) and the token limit.
\<close>

record chat_request =
  model :: string
  messages :: "(string \<times> string) list"
  temperature :: rat
  max_tokens :: nat

text \<open>
  What the call of the client does: an exception, or a completion, of which the
  function reads the message content of each choice (a string or \<^verbatim>\<open>None\<close>).
\<close>

datatype remote_outcome = Raises | Completes "string option list"

text \<open>
  What \<^verbatim>\<open>get_openai_client()\<close> does: it raises, or it returns a client, which answers
  a request with an outcome.
\<close>

datatype client_outcome = ClientRaises | Client "chat_request \<Rightarrow> remote_outcome"

record scene_result =
  location :: pyval
  description :: pyval
  why_here :: string

text \<open>The arguments of the call, with the location name already rendered.\<close>

definition scene_request :: "string \<Rightarrow> string \<Rightarrow> string \<Rightarrow> chat_request" where
  "scene_request scene_type name prompt =
     \<lparr>model = ''gpt-4o-mini'',
      messages =
        [(''system'', prompt),
         (''user'', ''Generate scene description for '' @ scene_type @ '' at '' @ name)],
      temperature = 7 / 10,
      max_tokens = 300\<rparr>"

text \<open>
  \<^verbatim>\<open>completion.choices[0].message.content.strip()\<close>: an empty list of choices raises
  \<^verbatim>\<open>IndexError\<close>, a content of \<^verbatim>\<open>None\<close> raises \<^verbatim>\<open>AttributeError\<close>.
\<close>

fun generated_text :: "remote_outcome \<Rightarrow> py_error + string" where
  "generated_text Raises = Inl RemoteError"
| "generated_text (Completes []) = Inl IndexError"
| "generated_text (Completes (None # choices)) = Inl AttributeError"
| "generated_text (Completes (Some content # choices)) = Inr (py_strip content)"

text \<open>The split of the generated text into description and \<^verbatim>\<open>why_here\<close> (lines 95 to 106).\<close>

definition parse_scene :: "unicode_tables \<Rightarrow> pyval \<Rightarrow> string \<Rightarrow> py_error + scene_result" where
  "parse_scene u name text =
     (let sentences = py_split ''. '' text
      in if length sentences \<ge> 2
         then Inr \<lparr>location = name,
                   description = PStr (py_join ''. '' (butlast sentences) @ ''.''),
                   why_here =
                     (let w = py_strip (last sentences)
                      in if \<not> ends_with_period w then w @ ''.'' else w)\<rparr>
         else bind_result (py_str u name) (\<lambda>rendered.
              Inr \<lparr>location = name,
                   description = PStr text,
                   why_here = ''You arrive in '' @ rendered @ '', ready for whatever awaits.''\<rparr>))"

text \<open>
  The body of the \<^verbatim>\<open>try\<close> (lines 79 to 114): the client is obtained, the arguments of
  the call are evaluated, the call is made, the text is read and split, and the log
  entry of the success, which renders the location name, is written. The result is the
  list of the requests passed to the client and the scene or the exception raised.
\<close>

definition try_scene ::
  "unicode_tables \<Rightarrow> client_outcome \<Rightarrow> string \<Rightarrow> pyval \<Rightarrow> string
     \<Rightarrow> chat_request list \<times> (py_error + scene_result)" where
  "try_scene u client scene_type name prompt =
     (case client of
        ClientRaises \<Rightarrow> ([], Inl RemoteError)
      | Client remote \<Rightarrow>
          (case py_str u name of
             Inl e \<Rightarrow> ([], Inl e)
           | Inr rendered \<Rightarrow>
               (let request = scene_request scene_type rendered prompt
                in ([request],
                    bind_result (generated_text (remote request)) (\<lambda>text.
                    bind_result (parse_scene u name text) (\<lambda>scene.
                    bind_result (py_str u name) (\<lambda>logged.
                    Inr scene)))))))"

text \<open>
  The result of the exception handler (lines 116 to 123); its f-string renders the
  location name.
\<close>

definition fallback_scene :: "unicode_tables \<Rightarrow> pyval \<Rightarrow> pyval \<Rightarrow> py_error + scene_result" where
  "fallback_scene u name summary =
     bind_result (py_str u name) (\<lambda>rendered.
     Inr \<lparr>location = name,
          description = summary,
          why_here =
            ''You have arrived in '' @ rendered
            @ '' seeking adventure and fortune. The world awaits your choices.''\<rparr>)"

text \<open>
  \<^verbatim>\<open>generate_scene_description\<close>. The result is the list of the requests passed to the
  client, in order, and either the exception that leaves the function or the mapping it
  returns. The extraction of the fields and the construction of the prompt come before
  the \<^verbatim>\<open>try\<close>: their exception leaves the function. An exception raised in the body of
  the \<^verbatim>\<open>try\<close> is caught by \<^verbatim>\<open>except Exception\<close>, whose handler returns the fallback.
  The parameter \<^verbatim>\<open>location\<close> is written \<open>location'\<close>, the name being taken by the field of
  the result.
\<close>

definition generate_scene_description ::
  "unicode_tables \<Rightarrow> client_outcome \<Rightarrow> string \<Rightarrow> pydict \<Rightarrow> pydict \<Rightarrow> pydict \<Rightarrow> pydict
     \<Rightarrow> pydict list option \<Rightarrow> chat_request list \<times> (py_error + scene_result)" where
  "generate_scene_description u client scene_type location' character_state world_state
       world_blueprint available_quest_hooks =
     (case extract_fields location' character_state world_state world_blueprint
             available_quest_hooks of
        Inl e \<Rightarrow> ([], Inl e)
      | Inr f \<Rightarrow>
     (case build_scene_generator_prompt u scene_type f of
        Inl e \<Rightarrow> ([], Inl e)
      | Inr prompt \<Rightarrow>
     (case try_scene u client scene_type (location_name f) prompt of
        (calls, Inl e) \<Rightarrow> (calls, fallback_scene u (location_name f) (location_summary f))
      | (calls, Inr scene) \<Rightarrow> (calls, Inr scene))))"

text \<open>Two clients for concrete runs: one whose call raises, one that answers a text.\<close>

definition remote_raises :: "chat_request \<Rightarrow> remote_outcome" where
  "remote_raises request = Raises"

definition remote_returns :: "string \<Rightarrow> chat_request \<Rightarrow> remote_outcome" where
  "remote_returns content request = Completes [Some content]"

section \<open>Sequencing and collecting\<close>

lemma bind_result_Inr_iff:
  "bind_result m g = Inr y \<longleftrightarrow> (\<exists>x. m = Inr x \<and> g x = Inr y)"
  by (cases m) auto

lemma bind_result_Inl_iff:
  "bind_result m g = Inl e \<longleftrightarrow> m = Inl e \<or> (\<exists>x. m = Inr x \<and> g x = Inl e)"
  by (cases m) auto

lemma bind_result_return [simp]: "bind_result m Inr = m"
  by (cases m) auto

lemma collect_Nil [simp]: "collect g [] = Inr []"
  by (simp add: collect_def)

lemma collect_Cons [simp]:
  "collect g (x # xs) =
     bind_result (g x) (\<lambda>y. bind_result (collect g xs) (\<lambda>ys. Inr (y # ys)))"
  by (cases "g x"; cases "all_results (map g xs)") (simp_all add: collect_def)

lemma collect_length: "collect g xs = Inr ys \<Longrightarrow> length ys = length xs"
  by (induction xs arbitrary: ys) (auto simp: bind_result_Inr_iff)

lemma str_items_strings: "str_items (map PStr ss) = Inr ss"
  by (induction ss) simp_all

section \<open>Splitting and stripping\<close>

lemma py_split_not_Nil: "py_split sep s \<noteq> []"
  by (induction sep s rule: py_split.induct) (auto split: list.splits)

lemma py_split_length_Cons:
  "length (case py_split sep cs of [] \<Rightarrow> [[c]] | p # ps \<Rightarrow> (c # p) # ps) = length (py_split sep cs)"
  using py_split_not_Nil [of sep cs] by (cases "py_split sep cs") simp_all

lemma py_split_no_separator:
  "\<not> sublist sep s \<Longrightarrow> py_split sep s = [s]"
proof (induction sep s rule: py_split.induct)
  case (1 sep)
  show ?case by simp
next
  case (2 sep c cs)
  from "2.prems" have np: "\<not> prefix sep (c # cs)" and ns: "\<not> sublist sep cs"
    by (auto simp: sublist_Cons_right)
  from np have "\<not> (sep \<noteq> [] \<and> prefix sep (c # cs))" by simp
  with "2.IH"(2) ns have "py_split sep cs = [cs]" by blast
  with np show ?case by simp
qed

lemma py_split_separator:
  "sep \<noteq> [] \<Longrightarrow> sublist sep s \<Longrightarrow> 2 \<le> length (py_split sep s)"
proof (induction sep s rule: py_split.induct)
  case (1 sep)
  then show ?case by simp
next
  case (2 sep c cs)
  show ?case
  proof (cases "prefix sep (c # cs)")
    case True
    with "2.prems"(1) have "py_split sep (c # cs) = [] # py_split sep (drop (length sep) (c # cs))"
      by simp
    moreover have "py_split sep (drop (length sep) (c # cs)) \<noteq> []" by (rule py_split_not_Nil)
    ultimately show ?thesis by (cases "py_split sep (drop (length sep) (c # cs))") simp_all
  next
    case False
    with "2.prems" have "sublist sep cs" by (simp add: sublist_Cons_right)
    with "2.IH"(2) False "2.prems"(1) have "2 \<le> length (py_split sep cs)" by blast
    with False show ?thesis by (simp add: py_split_length_Cons del: One_nat_def)
  qed
qed

lemma py_split_few_iff:
  "sep \<noteq> [] \<Longrightarrow> (length (py_split sep s) < 2) = (\<not> sublist sep s)"
  using py_split_separator [of sep s] py_split_no_separator [of sep s] by auto

lemma ends_with_period_append [simp]: "ends_with_period (s @ ''.'')"
  by (simp add: ends_with_period_def)

lemma strip_empty: "py_strip '''' = ''''"
  by (simp add: py_strip_def)

lemma strip_example: "py_strip ''A. B. C.'' = ''A. B. C.''"
  by code_simp

lemma split_example: "py_split ''. '' ''A. B. C.'' = [''A'', ''B'', ''C.'']"
  by code_simp

lemma strip_last_example: "py_strip ''C.'' = ''C.''"
  by code_simp

lemma strip_single_example: "py_strip ''OneSentenceOnly'' = ''OneSentenceOnly''"
  by code_simp

lemma no_separator_example: "\<not> sublist ''. '' ''OneSentenceOnly''"
  by code_simp

lemma sublist_py_join: "x \<in> set ls \<Longrightarrow> sublist x (py_join sep ls)"
proof (induction sep ls rule: py_join.induct)
  case (1 sep)
  then show ?case by simp
next
  case (2 sep y)
  then show ?case by simp
next
  case (3 sep y z zs)
  show ?case
  proof (cases "x = y")
    case True
    then show ?thesis by (simp add: sublist_append_rightI)
  next
    case False
    with "3.prems" have "x \<in> set (z # zs)" by simp
    then have "sublist x (py_join sep (z # zs))" by (rule "3.IH")
    then show ?thesis by (simp add: sublist_append)
  qed
qed

section \<open>The extracted fields\<close>

lemma py_get_error:
  "py_get v k d = Inl e \<Longrightarrow> e = AttributeError \<and> (\<forall>g. v \<noteq> PDict g)"
  by (cases v) auto

lemma extract_fields_Inr:
  assumes "extract_fields l c ws wb q = Inr f"
  shows "location_name f = dict_get l ''name'' (PStr ''Unknown'')"
    and "location_role f = dict_get l ''role'' (PStr ''settlement'')"
    and "location_summary f = dict_get l ''summary'' (PStr ''A mysterious place'')"
    and "signature_products f = dict_get l ''signature_products'' (PList [])"
    and "character_name f = dict_get c ''name'' (PStr ''Adventurer'')"
    and "character_level f = dict_get c ''level'' (PInt 1)"
    and "character_background f = dict_get c ''background'' (PStr ''wanderer'')"
    and "character_class f =
           dict_get c ''class'' (dict_get c ''class_'' (PStr ''unknown''))"
    and "time_of_day f = dict_get ws ''time_of_day'' (PStr ''midday'')"
    and "weather f = dict_get ws ''weather'' (PStr ''clear'')"
    and "reputation f = dict_get c ''reputation'' (PDict [])"
    and "is_wanted f =
           py_or (dict_get ws ''guards_hostile'' (PBool False))
                 (dict_get ws ''city_hostile'' (PBool False))"
    and "py_get (dict_get wb ''global_threat'' (PDict [])) ''early_signs_near_starting_town''
           (PList []) = Inr (early_signs f)"
    and "quest_hooks f = default_hooks q"
proof -
  obtain signs where
    s: "py_get (dict_get wb ''global_threat'' (PDict [])) ''early_signs_near_starting_town''
          (PList []) = Inr signs"
    using assms
    by (cases "py_get (dict_get wb ''global_threat'' (PDict [])) ''early_signs_near_starting_town''
          (PList [])") (simp_all add: extract_fields_def)
  from assms have f: "f = \<lparr>location_name = dict_get l ''name'' (PStr ''Unknown''),
             location_role = dict_get l ''role'' (PStr ''settlement''),
             location_summary = dict_get l ''summary'' (PStr ''A mysterious place''),
             signature_products = dict_get l ''signature_products'' (PList []),
             character_name = dict_get c ''name'' (PStr ''Adventurer''),
             character_level = dict_get c ''level'' (PInt 1),
             character_background = dict_get c ''background'' (PStr ''wanderer''),
             character_class =
               dict_get c ''class'' (dict_get c ''class_'' (PStr ''unknown'')),
             time_of_day = dict_get ws ''time_of_day'' (PStr ''midday''),
             weather = dict_get ws ''weather'' (PStr ''clear''),
             reputation = dict_get c ''reputation'' (PDict []),
             is_wanted =
               py_or (dict_get ws ''guards_hostile'' (PBool False))
                     (dict_get ws ''city_hostile'' (PBool False)),
             early_signs = signs,
             quest_hooks = default_hooks q\<rparr>"
    by (simp add: extract_fields_def s)
  show "location_name f = dict_get l ''name'' (PStr ''Unknown'')" by (simp add: f)
  show "location_role f = dict_get l ''role'' (PStr ''settlement'')" by (simp add: f)
  show "location_summary f = dict_get l ''summary'' (PStr ''A mysterious place'')" by (simp add: f)
  show "signature_products f = dict_get l ''signature_products'' (PList [])" by (simp add: f)
  show "character_name f = dict_get c ''name'' (PStr ''Adventurer'')" by (simp add: f)
  show "character_level f = dict_get c ''level'' (PInt 1)" by (simp add: f)
  show "character_background f = dict_get c ''background'' (PStr ''wanderer'')" by (simp add: f)
  show "character_class f = dict_get c ''class'' (dict_get c ''class_'' (PStr ''unknown''))"
    by (simp add: f)
  show "time_of_day f = dict_get ws ''time_of_day'' (PStr ''midday'')" by (simp add: f)
  show "weather f = dict_get ws ''weather'' (PStr ''clear'')" by (simp add: f)
  show "reputation f = dict_get c ''reputation'' (PDict [])" by (simp add: f)
  show "is_wanted f = py_or (dict_get ws ''guards_hostile'' (PBool False))
                 (dict_get ws ''city_hostile'' (PBool False))" by (simp add: f)
  show "py_get (dict_get wb ''global_threat'' (PDict [])) ''early_signs_near_starting_town''
           (PList []) = Inr (early_signs f)" by (simp add: f s)
  show "quest_hooks f = default_hooks q" by (simp add: f)
qed

lemma extract_fields_Inl:
  assumes "extract_fields l c ws wb q = Inl e"
  shows "e = AttributeError \<and>
         (\<exists>v. map_of wb ''global_threat'' = Some v \<and> (\<forall>g. v \<noteq> PDict g))"
proof -
  from assms have
    "py_get (dict_get wb ''global_threat'' (PDict [])) ''early_signs_near_starting_town''
       (PList []) = Inl e"
    by (cases "py_get (dict_get wb ''global_threat'' (PDict [])) ''early_signs_near_starting_town''
          (PList [])") (simp_all add: extract_fields_def)
  from py_get_error [OF this] show ?thesis
    by (cases "map_of wb ''global_threat''") (simp_all add: dict_get_def)
qed

lemma extract_fields_location:
  "extract_fields l c w b q = Inr f \<Longrightarrow>
   location_name f = dict_get l ''name'' (PStr ''Unknown'') \<and>
   location_summary f = dict_get l ''summary'' (PStr ''A mysterious place'')"
  by (auto simp: extract_fields_def Let_def split: sum.splits)

lemma extract_fields_bare:
  "extract_fields l [] [] [] None =
     Inr \<lparr>location_name = dict_get l ''name'' (PStr ''Unknown''),
          location_role = dict_get l ''role'' (PStr ''settlement''),
          location_summary = dict_get l ''summary'' (PStr ''A mysterious place''),
          signature_products = dict_get l ''signature_products'' (PList []),
          character_name = PStr ''Adventurer'',
          character_level = PInt 1,
          character_background = PStr ''wanderer'',
          character_class = PStr ''unknown'',
          time_of_day = PStr ''midday'',
          weather = PStr ''clear'',
          reputation = PDict [],
          is_wanted = PBool False,
          early_signs = PList [],
          quest_hooks = []\<rparr>"
  by (simp add: extract_fields_def dict_get_def py_or_def default_hooks_def)

section \<open>The texts of the prompt\<close>

lemma experience_level_int:
  "experience_level (PInt n) =
     Inr (if n \<le> 3 then ''inexperienced'' else if n \<le> 7 then ''seasoned'' else ''legendary'')"
  by (simp add: experience_level_def)

lemma level_not_comparable: "experience_level (PStr s) = Inl TypeError"
  by (simp add: experience_level_def)

lemma level_one: "str_int 1 = Inr ''1''"
  by code_simp

lemma capitalize_examples:
  "capitalize ascii_tables ''rumor'' = ''Rumor''"
  "capitalize ascii_tables ''notice'' = ''Notice''"
  by code_simp+

lemma hooks_text_take: "hooks_text u hooks = hooks_text u (take 2 hooks)"
  by (simp add: hooks_text_def take_eq_Nil)

lemma hooks_text_two:
  "hooks_text u (h1 # h2 # rest) =
     bind_result (hook_line u h1) (\<lambda>line1.
     bind_result (hook_line u h2) (\<lambda>line2.
     Inr (line1 @ newline @ line2)))"
  by (cases "hook_line u h1"; cases "hook_line u h2")
    (simp_all add: hooks_text_def numeral_2_eq_2)

lemma hook_line_strings:
  "map_of hook ''type'' = Some (PStr t) \<Longrightarrow> map_of hook ''description'' = Some (PStr d) \<Longrightarrow>
   hook_line u hook = Inr (''- '' @ capitalize u t @ '': '' @ d)"
  by (simp add: hook_line_def dict_get_def)

lemma signs_text_two:
  "signs_text u (PList (PStr s1 # PStr s2 # rest)) = Inr (''- '' @ s1 @ newline @ ''- '' @ s2)"
  by (simp add: signs_text_def sign_line_def numeral_2_eq_2)

lemma signs_text_take:
  "signs_text u (PList signs) = signs_text u (PList (take 2 signs))"
  by (simp add: signs_text_def take_eq_Nil)

lemma products_text_three:
  "products_text (PList (PStr p1 # PStr p2 # PStr p3 # rest)) =
     Inr (p1 @ '', '' @ p2 @ '', '' @ p3)"
  by (simp add: products_text_def join_items_def numeral_3_eq_3)

lemma products_text_take:
  "products_text (PList ps) = products_text (PList (take 3 ps))"
  by (simp add: products_text_def take_eq_Nil)

lemma products_text_empty: "products_text (PList []) = Inr ''various goods''"
  by (simp add: products_text_def)

lemma context_lines_take:
  "context_lines u
     (f\<lparr>signature_products := PList ps, early_signs := PList signs, quest_hooks := hooks\<rparr>)
     ex h pr =
   context_lines u
     (f\<lparr>signature_products := PList (take 3 ps), early_signs := PList (take 2 signs),
        quest_hooks := take 2 hooks\<rparr>) ex h pr"
proof -
  have s: "signs_text u (PList (take 2 signs)) = signs_text u (PList signs)"
    by (rule signs_text_take [symmetric])
  show ?thesis
    by (simp add: context_lines_def s take_eq_Nil)
qed

lemma build_prompt_take:
  "build_scene_generator_prompt u st
     (f\<lparr>signature_products := PList ps, early_signs := PList signs, quest_hooks := hooks\<rparr>) =
   build_scene_generator_prompt u st
     (f\<lparr>signature_products := PList (take 3 ps), early_signs := PList (take 2 signs),
        quest_hooks := take 2 hooks\<rparr>)"
proof -
  have h: "hooks_text u (take 2 hooks) = hooks_text u hooks"
    by (rule hooks_text_take [symmetric])
  have p: "products_text (PList (take 3 ps)) = products_text (PList ps)"
    by (rule products_text_take [symmetric])
  show ?thesis
    unfolding build_scene_generator_prompt_def
    by (subst context_lines_take) (simp add: h p)
qed

lemma context_lines_Inr:
  assumes "context_lines u f ex hooks products = Inr lines"
  shows "\<exists>name signs.
          py_str u (location_name f) = Inr name \<and>
          signs_text u (early_signs f) = Inr signs \<and>
          ''- Name: '' @ name \<in> set lines \<and>
          ''- Known For: '' @ products \<in> set lines \<and>
          (if quest_hooks f \<noteq> [] then hooks else '''') \<in> set lines \<and>
          signs \<in> set lines"
  using assms unfolding context_lines_def bind_result_Inr_iff by auto

lemma build_prompt_Inr:
  assumes "build_scene_generator_prompt u st f = Inr prompt"
  shows "\<exists>ex hooks products lines.
    experience_level (character_level f) = Inr ex \<and>
    hooks_text u (quest_hooks f) = Inr hooks \<and>
    products_text (signature_products f) = Inr products \<and>
    context_lines u f ex hooks products = Inr lines \<and>
    prompt = py_join newline
       (prompt_failure_conditions @ [''SCENE TYPE: '' @ st] @ prompt_scene_types @ lines
        @ prompt_rules)"
  using assms unfolding build_scene_generator_prompt_def bind_result_Inr_iff by auto

lemma build_prompt_renders_name:
  assumes "build_scene_generator_prompt u st f = Inr prompt"
  shows "\<exists>name. py_str u (location_name f) = Inr name"
proof -
  from build_prompt_Inr [OF assms] obtain ex hooks products lines where
    "context_lines u f ex hooks products = Inr lines"
    by (elim exE conjE)
  from context_lines_Inr [OF this] show ?thesis by (elim exE conjE) (rule exI)
qed

lemma build_prompt_contains:
  assumes "build_scene_generator_prompt u st f = Inr prompt"
  shows "\<exists>hooks products signs.
           hooks_text u (quest_hooks f) = Inr hooks \<and>
           products_text (signature_products f) = Inr products \<and>
           signs_text u (early_signs f) = Inr signs \<and>
           sublist hooks prompt \<and>
           sublist (''- Known For: '' @ products) prompt \<and>
           sublist signs prompt"
proof -
  from build_prompt_Inr [OF assms] obtain ex hooks products lines where
    h: "hooks_text u (quest_hooks f) = Inr hooks" and
    p: "products_text (signature_products f) = Inr products" and
    c: "context_lines u f ex hooks products = Inr lines" and
    prompt: "prompt = py_join newline
       (prompt_failure_conditions @ [''SCENE TYPE: '' @ st] @ prompt_scene_types @ lines
        @ prompt_rules)"
    by (elim exE conjE)
  from context_lines_Inr [OF c] obtain name signs where
    s: "signs_text u (early_signs f) = Inr signs" and
    m1: "''- Known For: '' @ products \<in> set lines" and
    m2: "(if quest_hooks f \<noteq> [] then hooks else '''') \<in> set lines" and
    m3: "signs \<in> set lines"
    by (elim exE conjE)
  from h have "(if quest_hooks f \<noteq> [] then hooks else '''') = hooks"
    by (auto simp: hooks_text_def)
  with m2 have m2': "hooks \<in> set lines" by simp
  have sub: "sublist x prompt" if "x \<in> set lines" for x
    unfolding prompt by (rule sublist_py_join) (simp add: that)
  from h p s sub [OF m2'] sub [OF m1] sub [OF m3] show ?thesis by (intro exI conjI)
qed

lemma build_prompt_defined:
  assumes "experience_level (character_level f) = Inr ex"
    and "hooks_text u (quest_hooks f) = Inr h"
    and "products_text (signature_products f) = Inr pr"
    and "signs_text u (early_signs f) = Inr s"
    and "py_str u (location_name f) = Inr v1" "py_str u (location_role f) = Inr v2"
    and "py_str u (location_summary f) = Inr v3" "py_str u (time_of_day f) = Inr v4"
    and "py_str u (weather f) = Inr v5" "py_str u (character_name f) = Inr v6"
    and "py_str u (character_level f) = Inr v7" "py_str u (character_background f) = Inr v8"
    and "py_str u (character_class f) = Inr v9"
  shows "\<exists>p. build_scene_generator_prompt u st f = Inr p"
  using assms by (simp add: build_scene_generator_prompt_def context_lines_def)

section \<open>The result of a parse and of the fallback\<close>

lemma fallback_scene_Inr:
  "py_str u name = Inr rendered \<Longrightarrow>
   fallback_scene u name summary =
     Inr \<lparr>location = name, description = summary,
          why_here = ''You have arrived in '' @ rendered
            @ '' seeking adventure and fortune. The world awaits your choices.''\<rparr>"
  by (simp add: fallback_scene_def)

lemma parse_scene_Inr:
  "py_str u name = Inr rendered \<Longrightarrow>
   parse_scene u name text =
     Inr (if 2 \<le> length (py_split ''. '' text)
          then \<lparr>location = name,
                description = PStr (py_join ''. '' (butlast (py_split ''. '' text)) @ ''.''),
                why_here =
                  (if ends_with_period (py_strip (last (py_split ''. '' text)))
                   then py_strip (last (py_split ''. '' text))
                   else py_strip (last (py_split ''. '' text)) @ ''.'')\<rparr>
          else \<lparr>location = name, description = PStr text,
                why_here = ''You arrive in '' @ rendered @ '', ready for whatever awaits.''\<rparr>)"
  by (simp add: parse_scene_def Let_def)

lemma parse_scene_location: "parse_scene u name text = Inr s \<Longrightarrow> location s = name"
  by (auto simp: parse_scene_def Let_def bind_result_Inr_iff split: if_splits)

lemma parse_scene_why_here: "parse_scene u name text = Inr s \<Longrightarrow> ends_with_period (why_here s)"
  by (auto simp: parse_scene_def Let_def bind_result_Inr_iff ends_with_period_def split: if_splits)

lemma parse_scene_description:
  assumes "parse_scene u name text = Inr s"
  shows "\<exists>d. description s = PStr d \<and> (d = [] \<longleftrightarrow> text = [])"
proof (cases "2 \<le> length (py_split ''. '' text)")
  case True
  then have "text \<noteq> []" by auto
  with True assms show ?thesis by (auto simp: parse_scene_def Let_def)
next
  case False
  with assms show ?thesis by (auto simp: parse_scene_def Let_def bind_result_Inr_iff)
qed

lemma fallback_scene_fields:
  "fallback_scene u name summary = Inr s \<Longrightarrow>
   location s = name \<and> description s = summary \<and> ends_with_period (why_here s)"
  by (auto simp: fallback_scene_def bind_result_Inr_iff ends_with_period_def)

section \<open>The paths through the function\<close>

lemma generate_extract_error:
  "extract_fields l c w b q = Inl e \<Longrightarrow>
   generate_scene_description u client st l c w b q = ([], Inl e)"
  by (simp add: generate_scene_description_def)

lemma generate_prompt_error:
  "extract_fields l c w b q = Inr f \<Longrightarrow> build_scene_generator_prompt u st f = Inl e \<Longrightarrow>
   generate_scene_description u client st l c w b q = ([], Inl e)"
  by (simp add: generate_scene_description_def)

lemma generate_no_client:
  assumes "extract_fields l c w b q = Inr f" "build_scene_generator_prompt u st f = Inr p"
    "py_str u (location_name f) = Inr rendered"
  shows "generate_scene_description u ClientRaises st l c w b q =
     ([],
      Inr \<lparr>location = location_name f, description = location_summary f,
           why_here = ''You have arrived in '' @ rendered
             @ '' seeking adventure and fortune. The world awaits your choices.''\<rparr>)"
  using assms by (simp add: generate_scene_description_def try_scene_def fallback_scene_Inr)

lemma generate_client:
  assumes "extract_fields l c w b q = Inr f" "build_scene_generator_prompt u st f = Inr p"
    "py_str u (location_name f) = Inr rendered"
  shows "generate_scene_description u (Client remote) st l c w b q =
     ([scene_request st rendered p],
      case generated_text (remote (scene_request st rendered p)) of
        Inl e \<Rightarrow> fallback_scene u (location_name f) (location_summary f)
      | Inr generated \<Rightarrow> parse_scene u (location_name f) generated)"
proof (cases "generated_text (remote (scene_request st rendered p))")
  case (Inl e)
  with assms show ?thesis
    by (simp add: generate_scene_description_def try_scene_def)
next
  case (Inr generated)
  from parse_scene_Inr [OF assms(3), of generated] obtain s where
    "parse_scene u (location_name f) generated = Inr s" by blast
  with Inr assms show ?thesis
    by (simp add: generate_scene_description_def try_scene_def)
qed

text \<open>The four ways an invocation can go.\<close>

lemma generate_cases:
  assumes "generate_scene_description u client st l c w b q = (calls, res)"
  obtains (fields_raise) e where "extract_fields l c w b q = Inl e" "calls = []" "res = Inl e"
  | (prompt_raises) f e where "extract_fields l c w b q = Inr f"
      "build_scene_generator_prompt u st f = Inl e" "calls = []" "res = Inl e"
  | (no_client) f p rendered where "extract_fields l c w b q = Inr f"
      "build_scene_generator_prompt u st f = Inr p" "py_str u (location_name f) = Inr rendered"
      "client = ClientRaises" "calls = []"
      "res = fallback_scene u (location_name f) (location_summary f)"
  | (called) f p rendered remote where "extract_fields l c w b q = Inr f"
      "build_scene_generator_prompt u st f = Inr p" "py_str u (location_name f) = Inr rendered"
      "client = Client remote" "calls = [scene_request st rendered p]"
      "res = (case generated_text (remote (scene_request st rendered p)) of
               Inl e \<Rightarrow> fallback_scene u (location_name f) (location_summary f)
             | Inr generated \<Rightarrow> parse_scene u (location_name f) generated)"
proof (cases "extract_fields l c w b q")
  case (Inl e)
  with assms fields_raise show ?thesis by (simp add: generate_extract_error)
next
  case f: (Inr f)
  show ?thesis
  proof (cases "build_scene_generator_prompt u st f")
    case (Inl e)
    with f assms prompt_raises show ?thesis by (simp add: generate_prompt_error)
  next
    case p: (Inr p)
    from build_prompt_renders_name [OF p] obtain rendered where
      r: "py_str u (location_name f) = Inr rendered" by blast
    show ?thesis
    proof (cases client)
      case ClientRaises
      from generate_no_client [OF f p r] assms ClientRaises
      have "calls = []" "res = fallback_scene u (location_name f) (location_summary f)"
        by (simp_all add: fallback_scene_Inr [OF r])
      with f p r ClientRaises show ?thesis by (rule no_client)
    next
      case (Client remote)
      from generate_client [OF f p r, of remote] assms Client
      have "calls = [scene_request st rendered p]"
        "res = (case generated_text (remote (scene_request st rendered p)) of
               Inl e \<Rightarrow> fallback_scene u (location_name f) (location_summary f)
             | Inr generated \<Rightarrow> parse_scene u (location_name f) generated)"
        by simp_all
      with f p r Client show ?thesis by (rule called)
    qed
  qed
qed

text \<open>
  A call with a location that lists no products and whose name, role and summary are
  strings or absent, and no other context, reaches the body of the \<^verbatim>\<open>try\<close>.
\<close>

lemma prompt_bare:
  assumes "map_of l ''signature_products'' = None"
    and "dict_get l ''name'' (PStr ''Unknown'') = PStr n"
    and "dict_get l ''role'' (PStr ''settlement'') = PStr r"
    and "dict_get l ''summary'' (PStr ''A mysterious place'') = PStr s"
  shows "\<exists>f p. extract_fields l [] [] [] None = Inr f \<and>
           build_scene_generator_prompt u st f = Inr p \<and>
           location_name f = PStr n \<and> location_summary f = PStr s"
proof -
  let ?f = "\<lparr>location_name = dict_get l ''name'' (PStr ''Unknown''),
          location_role = dict_get l ''role'' (PStr ''settlement''),
          location_summary = dict_get l ''summary'' (PStr ''A mysterious place''),
          signature_products = dict_get l ''signature_products'' (PList []),
          character_name = PStr ''Adventurer'',
          character_level = PInt 1,
          character_background = PStr ''wanderer'',
          character_class = PStr ''unknown'',
          time_of_day = PStr ''midday'',
          weather = PStr ''clear'',
          reputation = PDict [],
          is_wanted = PBool False,
          early_signs = PList [],
          quest_hooks = []\<rparr>"
  have 1: "experience_level (character_level ?f) = Inr ''inexperienced''"
    by (simp add: experience_level_int)
  have 2: "hooks_text u (quest_hooks ?f) = Inr ''''" by (simp add: hooks_text_def)
  have 3: "products_text (signature_products ?f) = Inr ''various goods''"
    using assms(1) by (simp add: products_text_def dict_get_def)
  have 4: "signs_text u (early_signs ?f) = Inr ''''" by (simp add: signs_text_def)
  have "\<exists>p. build_scene_generator_prompt u st ?f = Inr p"
    by (rule build_prompt_defined [OF 1 2 3 4]) (simp_all add: assms level_one)
  with extract_fields_bare [of l] assms show ?thesis by auto
qed

lemma run_bare:
  assumes "map_of l ''signature_products'' = None"
    and "dict_get l ''name'' (PStr ''Unknown'') = PStr n"
    and "dict_get l ''role'' (PStr ''settlement'') = PStr r"
    and "dict_get l ''summary'' (PStr ''A mysterious place'') = PStr s"
  shows "\<exists>request.
     generate_scene_description u (Client remote) st l [] [] [] None =
     ([request],
      case generated_text (remote request) of
        Inl e \<Rightarrow> fallback_scene u (PStr n) (PStr s)
      | Inr generated \<Rightarrow> parse_scene u (PStr n) generated)"
proof -
  from prompt_bare [OF assms, of u st] obtain f p where
    f: "extract_fields l [] [] [] None = Inr f" and
    p: "build_scene_generator_prompt u st f = Inr p" and
    n: "location_name f = PStr n" and s: "location_summary f = PStr s"
    by blast
  from n have r: "py_str u (location_name f) = Inr n" by simp
  from generate_client [OF f p r, of remote] show ?thesis
    unfolding n s by (rule exI)
qed

lemma bare_defaults:
  "map_of [] ''signature_products'' = (None :: pyval option)"
  "dict_get [] ''name'' (PStr ''Unknown'') = PStr ''Unknown''"
  "dict_get [] ''role'' (PStr ''settlement'') = PStr ''settlement''"
  "dict_get [] ''summary'' (PStr ''A mysterious place'') = PStr ''A mysterious place''"
  by (simp_all add: dict_get_def)

section \<open>The result of an invocation\<close>

text \<open>
  Claim C1, as amended. Whenever \<open>generate_scene_description\<close> returns a result (the
  extraction of the fields and the construction of the prompt raised nothing), the
  \<open>location\<close> of the result is the \<^verbatim>\<open>name\<close> field of the input location
  (\<^verbatim>\<open>"Unknown"\<close> when absent) and \<open>why_here\<close> ends with a period. When no client could
  be obtained, or the one request issued failed, \<open>description\<close> is the \<^verbatim>\<open>summary\<close> field
  of the location (or its default); when the request was answered, \<open>description\<close> is a
  string that is empty exactly when the stripped text of the answer is empty.
\<close>

theorem C1_result_when_returned:
  assumes "generate_scene_description u client st l c w b q = (calls, Inr r)"
  shows "location r = dict_get l ''name'' (PStr ''Unknown'') \<and>
         ends_with_period (why_here r) \<and>
         (case client of
            ClientRaises \<Rightarrow>
              calls = [] \<and> description r = dict_get l ''summary'' (PStr ''A mysterious place'')
          | Client remote \<Rightarrow>
              (\<exists>request. calls = [request] \<and>
                 (case generated_text (remote request) of
                    Inl e \<Rightarrow> description r = dict_get l ''summary'' (PStr ''A mysterious place'')
                  | Inr text \<Rightarrow> \<exists>d. description r = PStr d \<and> (d = [] \<longleftrightarrow> text = []))))"
  using assms
proof (cases rule: generate_cases)
  case (fields_raise e)
  then show ?thesis by simp
next
  case (prompt_raises f e)
  then show ?thesis by simp
next
  case (no_client f p rendered)
  from no_client(6) have fb: "fallback_scene u (location_name f) (location_summary f) = Inr r"
    by simp
  from fallback_scene_fields [OF fb] extract_fields_location [OF no_client(1)] no_client(4,5)
  show ?thesis by simp
next
  case (called f p rendered remote)
  note loc = extract_fields_location [OF called(1)]
  show ?thesis
  proof (cases "generated_text (remote (scene_request st rendered p))")
    case (Inl e)
    with called(6) have fb: "fallback_scene u (location_name f) (location_summary f) = Inr r"
      by simp
    from fallback_scene_fields [OF fb] loc called(4,5) Inl show ?thesis by simp
  next
    case (Inr generated)
    with called(6) have ps: "parse_scene u (location_name f) generated = Inr r" by simp
    from parse_scene_location [OF ps] parse_scene_why_here [OF ps] parse_scene_description [OF ps]
      loc called(4,5) Inr
    show ?thesis by simp
  qed
qed

text \<open>A run with empty mappings and a client whose call raises.\<close>

theorem C1_witness:
  "(\<exists>calls. generate_scene_description ascii_tables (Client remote_raises) ''arrival'' [] [] [] []
       None =
      (calls,
       Inr \<lparr>location = PStr ''Unknown'', description = PStr ''A mysterious place'',
            why_here = ''You have arrived in Unknown seeking adventure and fortune. The world awaits your choices.''\<rparr>)) \<and>
   ends_with_period
     ''You have arrived in Unknown seeking adventure and fortune. The world awaits your choices.''"
proof -
  let ?r = "\<lparr>location = PStr ''Unknown'', description = PStr ''A mysterious place'',
        why_here = ''You have arrived in Unknown seeking adventure and fortune. The world awaits your choices.''\<rparr>"
  from run_bare [OF bare_defaults, of ascii_tables remote_raises "''arrival''"]
  obtain calls where
    g: "generate_scene_description ascii_tables (Client remote_raises) ''arrival'' [] [] [] []
          None = (calls, Inr ?r)"
    by (auto simp: remote_raises_def fallback_scene_def)
  from C1_result_when_returned [OF g] have "ends_with_period (why_here ?r)" by blast
  with g show ?thesis by auto
qed

text \<open>
  Claim C1 as stated fails: for a location whose name is the empty string and a remote
  answer that is the empty text, both \<open>location\<close> and \<open>description\<close> of the result are
  empty strings.
\<close>

theorem C1_counterexample:
  "snd (generate_scene_description ascii_tables (Client (remote_returns '''')) ''arrival''
          [(''name'', PStr '''')] [] [] [] None) =
     Inr \<lparr>location = PStr '''', description = PStr '''',
          why_here = ''You arrive in , ready for whatever awaits.''\<rparr>"
proof -
  have "map_of [(''name'', PStr '''')] ''signature_products'' = None"
    "dict_get [(''name'', PStr '''')] ''name'' (PStr ''Unknown'') = PStr ''''"
    "dict_get [(''name'', PStr '''')] ''role'' (PStr ''settlement'') = PStr ''settlement''"
    "dict_get [(''name'', PStr '''')] ''summary'' (PStr ''A mysterious place'') =
       PStr ''A mysterious place''"
    by (simp_all add: dict_get_def)
  from run_bare [OF this, of ascii_tables "remote_returns ''''" "''arrival''"]
  show ?thesis
    by (auto simp: remote_returns_def strip_empty parse_scene_def)
qed

section \<open>Failure of the remote call\<close>

text \<open>
  Claim C2. If the body of the \<^verbatim>\<open>try\<close> is reached and no client can be obtained, or if
  a request issued by the invocation fails (the call raises, or reading the text of the
  answer does), then no second request is issued, and the invocation returns the
  fallback result: \<open>description\<close> is the \<^verbatim>\<open>summary\<close> field of the input location
  (\<^verbatim>\<open>"A mysterious place"\<close> when absent) and \<open>why_here\<close> is the fixed sentence around the
  rendered location name. No exception leaves the function, and every field of the
  result is the fallback's.
\<close>

theorem C2_remote_failure_gives_fallback:
  assumes "generate_scene_description u client st l c w b q = (calls, res)"
    and "(client = ClientRaises \<and>
            (\<exists>f p. extract_fields l c w b q = Inr f \<and>
                   build_scene_generator_prompt u st f = Inr p)) \<or>
         (\<exists>remote. client = Client remote \<and> request \<in> set calls \<and>
                   generated_text (remote request) = Inl e)"
  shows "calls = (case client of ClientRaises \<Rightarrow> [] | Client remote \<Rightarrow> [request]) \<and>
         (\<exists>rendered.
            py_str u (dict_get l ''name'' (PStr ''Unknown'')) = Inr rendered \<and>
            res = Inr \<lparr>location = dict_get l ''name'' (PStr ''Unknown''),
                       description = dict_get l ''summary'' (PStr ''A mysterious place''),
                       why_here = ''You have arrived in '' @ rendered
                         @ '' seeking adventure and fortune. The world awaits your choices.''\<rparr>)"
  using assms(1)
proof (cases rule: generate_cases)
  case (fields_raise e')
  with assms(2) show ?thesis by auto
next
  case (prompt_raises f e')
  with assms(2) show ?thesis by auto
next
  case (no_client f p rendered)
  with extract_fields_location [OF no_client(1)] fallback_scene_Inr [OF no_client(3)]
  show ?thesis by simp
next
  case (called f p rendered remote)
  with assms(2) have rq: "request = scene_request st rendered p"
    and fail: "generated_text (remote request) = Inl e"
    by auto
  with called have "res = fallback_scene u (location_name f) (location_summary f)" by simp
  with called rq extract_fields_location [OF called(1)] fallback_scene_Inr [OF called(3)]
  show ?thesis by simp
qed

text \<open>
  Runs with empty mappings: a client whose call raises, and no client at all.
\<close>

theorem C2_witness:
  "snd (generate_scene_description ascii_tables (Client remote_raises) ''arrival'' [] [] [] []
          None) =
     Inr \<lparr>location = PStr ''Unknown'', description = PStr ''A mysterious place'',
          why_here = ''You have arrived in Unknown seeking adventure and fortune. The world awaits your choices.''\<rparr> \<and>
   snd (generate_scene_description ascii_tables ClientRaises ''arrival'' [] [] [] [] None) =
     Inr \<lparr>location = PStr ''Unknown'', description = PStr ''A mysterious place'',
          why_here = ''You have arrived in Unknown seeking adventure and fortune. The world awaits your choices.''\<rparr>"
proof -
  let ?g = "generate_scene_description ascii_tables (Client remote_raises) ''arrival'' [] [] [] []
          None"
  let ?h = "generate_scene_description ascii_tables ClientRaises ''arrival'' [] [] [] [] None"
  from run_bare [OF bare_defaults, of ascii_tables remote_raises "''arrival''"]
  obtain request where calls: "fst ?g = [request]"
    by auto
  have 1: "?g = (fst ?g, snd ?g)" by simp
  have 2: "(Client remote_raises = ClientRaises \<and>
            (\<exists>f p. extract_fields [] [] [] [] None = Inr f \<and>
                   build_scene_generator_prompt ascii_tables ''arrival'' f = Inr p)) \<or>
         (\<exists>remote. Client remote_raises = Client remote \<and> request \<in> set (fst ?g) \<and>
                   generated_text (remote request) = Inl RemoteError)"
    using calls by (simp add: remote_raises_def)
  have 3: "?h = (fst ?h, snd ?h)" by simp
  from prompt_bare [OF bare_defaults, of ascii_tables "''arrival''"]
  have 4: "(ClientRaises = ClientRaises \<and>
            (\<exists>f p. extract_fields [] [] [] [] None = Inr f \<and>
                   build_scene_generator_prompt ascii_tables ''arrival'' f = Inr p)) \<or>
         (\<exists>remote. ClientRaises = Client remote \<and> request \<in> set (fst ?h) \<and>
                   generated_text (remote request) = Inl RemoteError)"
    by blast
  from C2_remote_failure_gives_fallback [OF 1 2] C2_remote_failure_gives_fallback [OF 3 4]
  show ?thesis by (auto simp: dict_get_def)
qed

section \<open>The split of the generated text\<close>

text \<open>
  Claim C3. When the client answers a text whose stripped form splits on
  \<^verbatim>\<open>". "\<close> into two or more pieces, \<open>description\<close> is all pieces but the last joined
  with \<^verbatim>\<open>". "\<close> and followed by a period, and \<open>why_here\<close> is the last piece stripped,
  with a period appended exactly when it does not end with one.
\<close>

theorem C3_description_and_why_here:
  assumes "generate_scene_description u client st l c w b q = (calls, res)"
    and "client = Client remote"
    and "request \<in> set calls"
    and "remote request = Completes (Some content # choices)"
    and "pieces = py_split ''. '' (py_strip content)"
    and "2 \<le> length pieces"
  shows "res = Inr \<lparr>location = dict_get l ''name'' (PStr ''Unknown''),
                    description = PStr (py_join ''. '' (butlast pieces) @ ''.''),
                    why_here =
                      (if ends_with_period (py_strip (last pieces)) then py_strip (last pieces)
                       else py_strip (last pieces) @ ''.'')\<rparr>"
  using assms(1)
proof (cases rule: generate_cases)
  case (fields_raise e)
  with assms(3) show ?thesis by simp
next
  case (prompt_raises f e)
  with assms(3) show ?thesis by simp
next
  case (no_client f p rendered)
  with assms(3) show ?thesis by simp
next
  case (called f p rendered remote')
  with assms(2,3) have rq: "request = scene_request st rendered p" and rm: "remote' = remote"
    by auto
  with called assms(4) have "res = parse_scene u (location_name f) (py_strip content)" by simp
  with assms(5,6) extract_fields_location [OF called(1)] parse_scene_Inr [OF called(3)]
  show ?thesis by simp
qed

text \<open>
  The remote text \<^verbatim>\<open>"A. B. C."\<close> gives the description \<^verbatim>\<open>"A. B."\<close> and the \<open>why_here\<close>
  \<^verbatim>\<open>"C."\<close>.
\<close>

theorem C3_witness:
  "snd (generate_scene_description ascii_tables (Client (remote_returns ''A. B. C.'')) ''arrival''
          [] [] [] [] None) =
     Inr \<lparr>location = PStr ''Unknown'', description = PStr ''A. B.'', why_here = ''C.''\<rparr>"
proof -
  let ?g = "generate_scene_description ascii_tables (Client (remote_returns ''A. B. C.''))
      ''arrival'' [] [] [] [] None"
  from run_bare [OF bare_defaults, of ascii_tables "remote_returns ''A. B. C.''" "''arrival''"]
  obtain request where calls: "fst ?g = [request]"
    by auto
  have 1: "?g = (fst ?g, snd ?g)" by simp
  from calls have 2: "request \<in> set (fst ?g)" by simp
  have 3: "remote_returns ''A. B. C.'' request = Completes (Some ''A. B. C.'' # [])"
    by (simp add: remote_returns_def)
  have 4: "[''A'', ''B'', ''C.''] = py_split ''. '' (py_strip ''A. B. C.'')"
    by (simp add: strip_example split_example)
  have 5: "2 \<le> length [''A'', ''B'', ''C.'']" by simp
  from C3_description_and_why_here [OF 1 refl 2 3 4 5] show ?thesis
    by (simp add: dict_get_def strip_last_example ends_with_period_def)
qed

text \<open>
  Claim C4. When the stripped text of the answer contains no \<^verbatim>\<open>". "\<close>, the split has
  fewer than two pieces, \<open>description\<close> is the whole stripped text and \<open>why_here\<close> is the
  generic sentence around the rendered location name.
\<close>

theorem C4_single_piece:
  assumes "generate_scene_description u client st l c w b q = (calls, res)"
    and "client = Client remote"
    and "request \<in> set calls"
    and "remote request = Completes (Some content # choices)"
    and "\<not> sublist ''. '' (py_strip content)"
  shows "length (py_split ''. '' (py_strip content)) < 2 \<and>
         (\<exists>rendered.
            py_str u (dict_get l ''name'' (PStr ''Unknown'')) = Inr rendered \<and>
            res = Inr \<lparr>location = dict_get l ''name'' (PStr ''Unknown''),
                       description = PStr (py_strip content),
                       why_here = ''You arrive in '' @ rendered
                         @ '', ready for whatever awaits.''\<rparr>)"
  using assms(1)
proof (cases rule: generate_cases)
  case (fields_raise e)
  with assms(3) show ?thesis by simp
next
  case (prompt_raises f e)
  with assms(3) show ?thesis by simp
next
  case (no_client f p rendered)
  with assms(3) show ?thesis by simp
next
  case (called f p rendered remote')
  with assms(2,3) have rq: "request = scene_request st rendered p" and rm: "remote' = remote"
    by auto
  with called assms(4) have "res = parse_scene u (location_name f) (py_strip content)" by simp
  moreover from assms(5) have "py_split ''. '' (py_strip content) = [py_strip content]"
    by (rule py_split_no_separator)
  ultimately show ?thesis
    using extract_fields_location [OF called(1)] parse_scene_Inr [OF called(3)] called(3)
    by simp
qed

text \<open>The remote text \<^verbatim>\<open>"OneSentenceOnly"\<close>.\<close>

theorem C4_witness:
  "snd (generate_scene_description ascii_tables (Client (remote_returns ''OneSentenceOnly''))
          ''arrival'' [] [] [] [] None) =
     Inr \<lparr>location = PStr ''Unknown'', description = PStr ''OneSentenceOnly'',
          why_here = ''You arrive in Unknown, ready for whatever awaits.''\<rparr>"
proof -
  let ?g = "generate_scene_description ascii_tables (Client (remote_returns ''OneSentenceOnly''))
      ''arrival'' [] [] [] [] None"
  from run_bare [OF bare_defaults, of ascii_tables "remote_returns ''OneSentenceOnly''"
      "''arrival''"]
  obtain request where calls: "fst ?g = [request]"
    by auto
  have 1: "?g = (fst ?g, snd ?g)" by simp
  from calls have 2: "request \<in> set (fst ?g)" by simp
  have 3: "remote_returns ''OneSentenceOnly'' request = Completes (Some ''OneSentenceOnly'' # [])"
    by (simp add: remote_returns_def)
  have 4: "\<not> sublist ''. '' (py_strip ''OneSentenceOnly'')"
    by (simp add: strip_single_example no_separator_example)
  from C4_single_piece [OF 1 refl 2 3 4] show ?thesis
    by (auto simp: dict_get_def strip_single_example)
qed

section \<open>Derived classifications\<close>

text \<open>
  Claim C5. For every integer level the experience tier is \<^verbatim>\<open>inexperienced\<close> up to 3,
  \<^verbatim>\<open>seasoned\<close> from 4 to 7 and \<^verbatim>\<open>legendary\<close> from 8 on; levels 1, 3, 4, 5 and 10 are
  the examples of the specification.
\<close>

theorem C5_experience_tiers:
  "experience_level (PInt n) =
     Inr (if n \<le> 3 then ''inexperienced'' else if n \<le> 7 then ''seasoned'' else ''legendary'') \<and>
   experience_level (PInt 1) = Inr ''inexperienced'' \<and>
   experience_level (PInt 3) = Inr ''inexperienced'' \<and>
   experience_level (PInt 4) = Inr ''seasoned'' \<and>
   experience_level (PInt 5) = Inr ''seasoned'' \<and>
   experience_level (PInt 10) = Inr ''legendary''"
  by (simp add: experience_level_def)

text \<open>
  Claim C6. The \<open>is_wanted\<close> value extracted from a world state is truthy exactly when
  one of \<^verbatim>\<open>guards_hostile\<close> and \<^verbatim>\<open>city_hostile\<close> is present and truthy; when each flag
  is absent or a boolean, \<open>is_wanted\<close> is the boolean that is true exactly when one of
  them is \<^verbatim>\<open>True\<close>.
\<close>

theorem C6_is_wanted:
  assumes "extract_fields l c ws wb q = Inr f"
  shows "(py_truthy (is_wanted f) \<longleftrightarrow>
            (\<exists>v. map_of ws ''guards_hostile'' = Some v \<and> py_truthy v) \<or>
            (\<exists>v. map_of ws ''city_hostile'' = Some v \<and> py_truthy v)) \<and>
         ((map_of ws ''guards_hostile'' = None \<or> (\<exists>g. map_of ws ''guards_hostile'' = Some (PBool g))) \<and>
          (map_of ws ''city_hostile'' = None \<or> (\<exists>h. map_of ws ''city_hostile'' = Some (PBool h))) \<longrightarrow>
          is_wanted f =
            PBool (map_of ws ''guards_hostile'' = Some (PBool True) \<or>
                   map_of ws ''city_hostile'' = Some (PBool True)))"
proof -
  from assms have w: "is_wanted f =
      py_or (dict_get ws ''guards_hostile'' (PBool False)) (dict_get ws ''city_hostile'' (PBool False))"
    by (auto simp: extract_fields_def Let_def split: sum.splits)
  show ?thesis unfolding w
    by (auto simp: py_or_def dict_get_def split: option.splits)
qed

text \<open>A world state with \<^verbatim>\<open>city_hostile\<close> set and \<^verbatim>\<open>guards_hostile\<close> absent.\<close>

theorem C6_witness:
  "is_wanted
     \<lparr>location_name = PStr ''Unknown'', location_role = PStr ''settlement'',
      location_summary = PStr ''A mysterious place'', signature_products = PList [],
      character_name = PStr ''Adventurer'', character_level = PInt 1,
      character_background = PStr ''wanderer'', character_class = PStr ''unknown'',
      time_of_day = PStr ''midday'', weather = PStr ''clear'', reputation = PDict [],
      is_wanted = PBool True, early_signs = PList [], quest_hooks = []\<rparr> = PBool True \<and>
   extract_fields [] [] [(''city_hostile'', PBool True)] [] None =
     Inr \<lparr>location_name = PStr ''Unknown'', location_role = PStr ''settlement'',
      location_summary = PStr ''A mysterious place'', signature_products = PList [],
      character_name = PStr ''Adventurer'', character_level = PInt 1,
      character_background = PStr ''wanderer'', character_class = PStr ''unknown'',
      time_of_day = PStr ''midday'', weather = PStr ''clear'', reputation = PDict [],
      is_wanted = PBool True, early_signs = PList [], quest_hooks = []\<rparr>"
proof -
  have e: "extract_fields [] [] [(''city_hostile'', PBool True)] [] None =
     Inr \<lparr>location_name = PStr ''Unknown'', location_role = PStr ''settlement'',
      location_summary = PStr ''A mysterious place'', signature_products = PList [],
      character_name = PStr ''Adventurer'', character_level = PInt 1,
      character_background = PStr ''wanderer'', character_class = PStr ''unknown'',
      time_of_day = PStr ''midday'', weather = PStr ''clear'', reputation = PDict [],
      is_wanted = PBool True, early_signs = PList [], quest_hooks = []\<rparr>"
    by (simp add: extract_fields_def dict_get_def py_or_def default_hooks_def)
  from C6_is_wanted [OF e] e show ?thesis by simp
qed

section \<open>Truncation in the prompt\<close>

text \<open>
  Claim C7. The prompt built from lists of products, early signs and quest hooks is the
  prompt built from the first three products, the first two signs and the first two
  hooks. For a list of two or more hooks the hooks text is the line of the first hook,
  a newline and the line of the second, where the line of a hook with a string type and
  a string description is \<^verbatim>\<open>"- "\<close>, the capitalized type, \<^verbatim>\<open>": "\<close> and the description.
  For a list of two or more signs the signs text is the lines of the first two, and for
  a list of three or more products the products text joins the first three with
  \<^verbatim>\<open>", "\<close>; for the empty list it is \<^verbatim>\<open>various goods\<close>. Every prompt that is built
  contains these three texts, the products text after \<^verbatim>\<open>"- Known For: "\<close>.
\<close>

theorem C7_truncation:
  "build_scene_generator_prompt u st
     (f\<lparr>signature_products := PList ps, early_signs := PList signs, quest_hooks := hooks\<rparr>) =
   build_scene_generator_prompt u st
     (f\<lparr>signature_products := PList (take 3 ps), early_signs := PList (take 2 signs),
        quest_hooks := take 2 hooks\<rparr>) \<and>
   hooks_text u (h1 # h2 # more_hooks) =
     bind_result (hook_line u h1) (\<lambda>line1.
     bind_result (hook_line u h2) (\<lambda>line2.
     Inr (line1 @ newline @ line2))) \<and>
   (map_of h ''type'' = Some (PStr t) \<and> map_of h ''description'' = Some (PStr d) \<longrightarrow>
      hook_line u h = Inr (''- '' @ capitalize u t @ '': '' @ d)) \<and>
   signs_text u (PList (PStr s1 # PStr s2 # more_signs)) =
     Inr (''- '' @ s1 @ newline @ ''- '' @ s2) \<and>
   products_text (PList (PStr p1 # PStr p2 # PStr p3 # more_products)) =
     Inr (p1 @ '', '' @ p2 @ '', '' @ p3) \<and>
   products_text (PList []) = Inr ''various goods'' \<and>
   (build_scene_generator_prompt u st g = Inr prompt \<longrightarrow>
      (\<exists>hooks_lines products signs_lines.
         hooks_text u (quest_hooks g) = Inr hooks_lines \<and>
         products_text (signature_products g) = Inr products \<and>
         signs_text u (early_signs g) = Inr signs_lines \<and>
         sublist hooks_lines prompt \<and>
         sublist (''- Known For: '' @ products) prompt \<and>
         sublist signs_lines prompt))"
proof (intro conjI impI)
  show "build_scene_generator_prompt u st
     (f\<lparr>signature_products := PList ps, early_signs := PList signs, quest_hooks := hooks\<rparr>) =
   build_scene_generator_prompt u st
     (f\<lparr>signature_products := PList (take 3 ps), early_signs := PList (take 2 signs),
        quest_hooks := take 2 hooks\<rparr>)"
    by (rule build_prompt_take)
  show "hooks_text u (h1 # h2 # more_hooks) =
     bind_result (hook_line u h1) (\<lambda>line1.
     bind_result (hook_line u h2) (\<lambda>line2.
     Inr (line1 @ newline @ line2)))"
    by (rule hooks_text_two)
  show "hook_line u h = Inr (''- '' @ capitalize u t @ '': '' @ d)"
    if "map_of h ''type'' = Some (PStr t) \<and> map_of h ''description'' = Some (PStr d)"
    using that by (simp add: hook_line_strings)
  show "signs_text u (PList (PStr s1 # PStr s2 # more_signs)) =
     Inr (''- '' @ s1 @ newline @ ''- '' @ s2)"
    by (rule signs_text_two)
  show "products_text (PList (PStr p1 # PStr p2 # PStr p3 # more_products)) =
     Inr (p1 @ '', '' @ p2 @ '', '' @ p3)"
    by (rule products_text_three)
  show "products_text (PList []) = Inr ''various goods''"
    by (rule products_text_empty)
  show "\<exists>hooks_lines products signs_lines.
         hooks_text u (quest_hooks g) = Inr hooks_lines \<and>
         products_text (signature_products g) = Inr products \<and>
         signs_text u (early_signs g) = Inr signs_lines \<and>
         sublist hooks_lines prompt \<and>
         sublist (''- Known For: '' @ products) prompt \<and>
         sublist signs_lines prompt"
    if "build_scene_generator_prompt u st g = Inr prompt"
    using that by (rule build_prompt_contains)
qed

text \<open>
  Three hooks, three signs and four products: two hook lines, two sign lines and three
  products are rendered, and the prompt contains them.
\<close>

theorem C7_witness:
  "hooks_text ascii_tables
     [[(''type'', PStr ''rumor''), (''description'', PStr ''a cart'')],
      [(''type'', PStr ''notice''), (''description'', PStr ''a board'')],
      [(''type'', PStr ''threat''), (''description'', PStr ''a shadow'')]] =
     Inr (''- Rumor: a cart'' @ newline @ ''- Notice: a board'') \<and>
   signs_text ascii_tables (PList [PStr ''smoke'', PStr ''tracks'', PStr ''howls'']) =
     Inr (''- smoke'' @ newline @ ''- tracks'') \<and>
   products_text (PList [PStr ''ale'', PStr ''iron'', PStr ''wool'', PStr ''salt'']) =
     Inr ''ale, iron, wool'' \<and>
   (\<exists>prompt.
      build_scene_generator_prompt ascii_tables ''arrival''
        \<lparr>location_name = PStr ''Darkeroot'', location_role = PStr ''settlement'',
         location_summary = PStr ''A mysterious place'',
         signature_products = PList [PStr ''ale'', PStr ''iron'', PStr ''wool'', PStr ''salt''],
         character_name = PStr ''Adventurer'', character_level = PInt 1,
         character_background = PStr ''wanderer'', character_class = PStr ''unknown'',
         time_of_day = PStr ''midday'', weather = PStr ''clear'', reputation = PDict [],
         is_wanted = PBool False,
         early_signs = PList [PStr ''smoke'', PStr ''tracks'', PStr ''howls''],
         quest_hooks =
           [[(''type'', PStr ''rumor''), (''description'', PStr ''a cart'')],
            [(''type'', PStr ''notice''), (''description'', PStr ''a board'')],
            [(''type'', PStr ''threat''), (''description'', PStr ''a shadow'')]]\<rparr> = Inr prompt \<and>
      sublist (''- Rumor: a cart'' @ newline @ ''- Notice: a board'') prompt \<and>
      sublist ''- Known For: ale, iron, wool'' prompt \<and>
      sublist (''- smoke'' @ newline @ ''- tracks'') prompt)"
proof -
  let ?h1 = "[(''type'', PStr ''rumor''), (''description'', PStr ''a cart'')]"
  let ?h2 = "[(''type'', PStr ''notice''), (''description'', PStr ''a board'')]"
  let ?h3 = "[(''type'', PStr ''threat''), (''description'', PStr ''a shadow'')]"
  let ?signs = "PList [PStr ''smoke'', PStr ''tracks'', PStr ''howls'']"
  let ?products = "PList [PStr ''ale'', PStr ''iron'', PStr ''wool'', PStr ''salt'']"
  let ?g = "\<lparr>location_name = PStr ''Darkeroot'', location_role = PStr ''settlement'',
         location_summary = PStr ''A mysterious place'',
         signature_products = ?products,
         character_name = PStr ''Adventurer'', character_level = PInt 1,
         character_background = PStr ''wanderer'', character_class = PStr ''unknown'',
         time_of_day = PStr ''midday'', weather = PStr ''clear'', reputation = PDict [],
         is_wanted = PBool False,
         early_signs = ?signs,
         quest_hooks = [?h1, ?h2, ?h3]\<rparr>"
  note c7 = C7_truncation [where u = ascii_tables and ?h1.0 = ?h1 and ?h2.0 = ?h2
      and more_hooks = "[?h3]" and ?s1.0 = "''smoke''" and ?s2.0 = "''tracks''"
      and more_signs = "[PStr ''howls'']" and ?p1.0 = "''ale''" and ?p2.0 = "''iron''"
      and ?p3.0 = "''wool''" and more_products = "[PStr ''salt'']" and g = ?g
      and st = "''arrival''"]
  note line = c7 [THEN conjunct2, THEN conjunct2, THEN conjunct1, rule_format]
  have l1: "hook_line ascii_tables ?h1 = Inr ''- Rumor: a cart''"
    using line [of ?h1 "''rumor''" "''a cart''"] by (simp add: capitalize_examples)
  have l2: "hook_line ascii_tables ?h2 = Inr ''- Notice: a board''"
    using line [of ?h2 "''notice''" "''a board''"] by (simp add: capitalize_examples)
  from c7 [THEN conjunct2, THEN conjunct1]
  have h: "hooks_text ascii_tables [?h1, ?h2, ?h3] =
      Inr (''- Rumor: a cart'' @ newline @ ''- Notice: a board'')"
    by (simp only: l1 l2 bind_result.simps)
  from c7 [THEN conjunct2, THEN conjunct2, THEN conjunct2, THEN conjunct1]
  have s: "signs_text ascii_tables ?signs = Inr (''- smoke'' @ newline @ ''- tracks'')"
    by simp
  from c7 [THEN conjunct2, THEN conjunct2, THEN conjunct2, THEN conjunct2, THEN conjunct1]
  have p: "products_text ?products = Inr ''ale, iron, wool''"
    by simp
  have "experience_level (character_level ?g) = Inr ''inexperienced''"
    by (simp add: experience_level_int)
  moreover have "hooks_text ascii_tables (quest_hooks ?g) =
      Inr (''- Rumor: a cart'' @ newline @ ''- Notice: a board'')"
    using h by simp
  moreover have "products_text (signature_products ?g) = Inr ''ale, iron, wool''"
    using p by simp
  moreover have "signs_text ascii_tables (early_signs ?g) =
      Inr (''- smoke'' @ newline @ ''- tracks'')"
    using s by simp
  ultimately have "\<exists>prompt. build_scene_generator_prompt ascii_tables ''arrival'' ?g = Inr prompt"
    by (rule build_prompt_defined) (simp_all add: level_one)
  then obtain prompt where
    b: "build_scene_generator_prompt ascii_tables ''arrival'' ?g = Inr prompt" by blast
  from c7 [THEN conjunct2, THEN conjunct2, THEN conjunct2, THEN conjunct2, THEN conjunct2,
      THEN conjunct2, rule_format, OF b] h s p
  have "sublist (''- Rumor: a cart'' @ newline @ ''- Notice: a board'') prompt \<and>
      sublist ''- Known For: ale, iron, wool'' prompt \<and>
      sublist (''- smoke'' @ newline @ ''- tracks'') prompt"
    by auto
  with b have "\<exists>prompt.
      build_scene_generator_prompt ascii_tables ''arrival'' ?g = Inr prompt \<and>
      sublist (''- Rumor: a cart'' @ newline @ ''- Notice: a board'') prompt \<and>
      sublist ''- Known For: ale, iron, wool'' prompt \<and>
      sublist (''- smoke'' @ newline @ ''- tracks'') prompt"
    by blast
  with h s p show ?thesis by (intro conjI)
qed

section \<open>Defaults\<close>

text \<open>
  Claim C8. With empty mappings and no quest hooks every field has its default. For
  arbitrary mappings the extraction raises only when \<^verbatim>\<open>global_threat\<close> is present and
  is not a mapping, never for an absent field, and every absent field has its default in
  the extracted fields. With empty mappings the whole function returns a result.
\<close>

theorem C8_absent_fields_default:
  "extract_fields [] [] [] [] None =
     Inr \<lparr>location_name = PStr ''Unknown'', location_role = PStr ''settlement'',
          location_summary = PStr ''A mysterious place'', signature_products = PList [],
          character_name = PStr ''Adventurer'', character_level = PInt 1,
          character_background = PStr ''wanderer'', character_class = PStr ''unknown'',
          time_of_day = PStr ''midday'', weather = PStr ''clear'', reputation = PDict [],
          is_wanted = PBool False, early_signs = PList [], quest_hooks = []\<rparr> \<and>
   (\<forall>e. extract_fields l c ws wb q = Inl e \<longrightarrow>
        e = AttributeError \<and>
        (\<exists>v. map_of wb ''global_threat'' = Some v \<and> (\<forall>g. v \<noteq> PDict g))) \<and>
   (\<forall>f. extract_fields l c ws wb q = Inr f \<longrightarrow>
        (map_of l ''name'' = None \<longrightarrow> location_name f = PStr ''Unknown'') \<and>
        (map_of l ''role'' = None \<longrightarrow> location_role f = PStr ''settlement'') \<and>
        (map_of l ''summary'' = None \<longrightarrow> location_summary f = PStr ''A mysterious place'') \<and>
        (map_of l ''signature_products'' = None \<longrightarrow> signature_products f = PList []) \<and>
        (map_of c ''name'' = None \<longrightarrow> character_name f = PStr ''Adventurer'') \<and>
        (map_of c ''level'' = None \<longrightarrow> character_level f = PInt 1) \<and>
        (map_of c ''background'' = None \<longrightarrow> character_background f = PStr ''wanderer'') \<and>
        (map_of c ''class'' = None \<and> map_of c ''class_'' = None \<longrightarrow>
           character_class f = PStr ''unknown'') \<and>
        (map_of c ''reputation'' = None \<longrightarrow> reputation f = PDict []) \<and>
        (map_of ws ''time_of_day'' = None \<longrightarrow> time_of_day f = PStr ''midday'') \<and>
        (map_of ws ''weather'' = None \<longrightarrow> weather f = PStr ''clear'') \<and>
        (map_of ws ''guards_hostile'' = None \<and> map_of ws ''city_hostile'' = None \<longrightarrow>
           is_wanted f = PBool False) \<and>
        (map_of wb ''global_threat'' = None \<longrightarrow> early_signs f = PList []) \<and>
        (\<forall>g. map_of wb ''global_threat'' = Some (PDict g) \<and>
             map_of g ''early_signs_near_starting_town'' = None \<longrightarrow>
             early_signs f = PList []) \<and>
        (q = None \<or> q = Some [] \<longrightarrow> quest_hooks f = [])) \<and>
   (case client of
      ClientRaises \<Rightarrow>
        (\<exists>r. generate_scene_description u client st [] [] [] [] None = ([], Inr r))
    | Client remote \<Rightarrow>
        (\<exists>request r.
           generate_scene_description u client st [] [] [] [] None = ([request], Inr r)))"
proof (intro conjI allI impI)
  show "extract_fields [] [] [] [] None =
     Inr \<lparr>location_name = PStr ''Unknown'', location_role = PStr ''settlement'',
          location_summary = PStr ''A mysterious place'', signature_products = PList [],
          character_name = PStr ''Adventurer'', character_level = PInt 1,
          character_background = PStr ''wanderer'', character_class = PStr ''unknown'',
          time_of_day = PStr ''midday'', weather = PStr ''clear'', reputation = PDict [],
          is_wanted = PBool False, early_signs = PList [], quest_hooks = []\<rparr>"
    by (simp add: extract_fields_bare dict_get_def)
next
  fix e assume "extract_fields l c ws wb q = Inl e"
  from extract_fields_Inl [OF this]
  show "e = AttributeError" "\<exists>v. map_of wb ''global_threat'' = Some v \<and> (\<forall>g. v \<noteq> PDict g)"
    by simp_all
next
  show "case client of
      ClientRaises \<Rightarrow>
        (\<exists>r. generate_scene_description u client st [] [] [] [] None = ([], Inr r))
    | Client remote \<Rightarrow>
        (\<exists>request r.
           generate_scene_description u client st [] [] [] [] None = ([request], Inr r))"
  proof (cases client)
    case ClientRaises
    from prompt_bare [OF bare_defaults, of u st] obtain f p where
      f: "extract_fields [] [] [] [] None = Inr f" and
      p: "build_scene_generator_prompt u st f = Inr p" and
      n: "location_name f = PStr ''Unknown''"
      by blast
    from n have "py_str u (location_name f) = Inr ''Unknown''" by simp
    from generate_no_client [OF f p this] ClientRaises show ?thesis by simp
  next
    case (Client remote)
    from run_bare [OF bare_defaults, of u remote st] obtain request where
      g: "generate_scene_description u (Client remote) st [] [] [] [] None =
        ([request],
         case generated_text (remote request) of
           Inl e \<Rightarrow> fallback_scene u (PStr ''Unknown'') (PStr ''A mysterious place'')
         | Inr generated \<Rightarrow> parse_scene u (PStr ''Unknown'') generated)"
      by blast
    have "\<exists>r. (case generated_text (remote request) of
           Inl e \<Rightarrow> fallback_scene u (PStr ''Unknown'') (PStr ''A mysterious place'')
         | Inr generated \<Rightarrow> parse_scene u (PStr ''Unknown'') generated) = Inr r"
      by (cases "generated_text (remote request)")
        (simp_all add: fallback_scene_Inr parse_scene_Inr)
    with g Client show ?thesis by auto
  qed
next
  fix f assume f: "extract_fields l c ws wb q = Inr f"
  note x = extract_fields_Inr [OF f]
  { assume "map_of l ''name'' = None"
    then show "location_name f = PStr ''Unknown''" by (simp add: x(1) dict_get_def) }
  { assume "map_of l ''role'' = None"
    then show "location_role f = PStr ''settlement''" by (simp add: x(2) dict_get_def) }
  { assume "map_of l ''summary'' = None"
    then show "location_summary f = PStr ''A mysterious place''" by (simp add: x(3) dict_get_def) }
  { assume "map_of l ''signature_products'' = None"
    then show "signature_products f = PList []" by (simp add: x(4) dict_get_def) }
  { assume "map_of c ''name'' = None"
    then show "character_name f = PStr ''Adventurer''" by (simp add: x(5) dict_get_def) }
  { assume "map_of c ''level'' = None"
    then show "character_level f = PInt 1" by (simp add: x(6) dict_get_def) }
  { assume "map_of c ''background'' = None"
    then show "character_background f = PStr ''wanderer''" by (simp add: x(7) dict_get_def) }
  { assume "map_of c ''class'' = None \<and> map_of c ''class_'' = None"
    then show "character_class f = PStr ''unknown''" by (simp add: x(8) dict_get_def) }
  { assume "map_of c ''reputation'' = None"
    then show "reputation f = PDict []" by (simp add: x(11) dict_get_def) }
  { assume "map_of ws ''time_of_day'' = None"
    then show "time_of_day f = PStr ''midday''" by (simp add: x(9) dict_get_def) }
  { assume "map_of ws ''weather'' = None"
    then show "weather f = PStr ''clear''" by (simp add: x(10) dict_get_def) }
  { assume "map_of ws ''guards_hostile'' = None \<and> map_of ws ''city_hostile'' = None"
    then show "is_wanted f = PBool False" by (simp add: x(12) dict_get_def py_or_def) }
  { assume "map_of wb ''global_threat'' = None"
    with x(13) show "early_signs f = PList []" by (simp add: dict_get_def) }
  { fix g assume "map_of wb ''global_threat'' = Some (PDict g) \<and>
             map_of g ''early_signs_near_starting_town'' = None"
    with x(13) show "early_signs f = PList []" by (simp add: dict_get_def) }
  { assume "q = None \<or> q = Some []"
    then show "quest_hooks f = []" by (auto simp: x(14) default_hooks_def) }
qed

text \<open>A location that has a name only, with the other mappings empty.\<close>

theorem C8_witness:
  "\<exists>f. extract_fields [(''name'', PStr ''Darkeroot'')] [] [] [] None = Inr f \<and>
       location_name f = PStr ''Darkeroot'' \<and>
       location_role f = PStr ''settlement'' \<and>
       location_summary f = PStr ''A mysterious place'' \<and>
       signature_products f = PList [] \<and>
       character_name f = PStr ''Adventurer'' \<and>
       character_level f = PInt 1 \<and>
       character_background f = PStr ''wanderer'' \<and>
       character_class f = PStr ''unknown'' \<and>
       time_of_day f = PStr ''midday'' \<and>
       weather f = PStr ''clear'' \<and>
       is_wanted f = PBool False \<and>
       early_signs f = PList [] \<and>
       quest_hooks f = []"
proof -
  obtain f where f: "extract_fields [(''name'', PStr ''Darkeroot'')] [] [] [] None = Inr f"
    by (simp add: extract_fields_bare)
  then have n: "location_name f = PStr ''Darkeroot''"
    by (auto simp: extract_fields_bare dict_get_def)
  from C8_absent_fields_default [of "[(''name'', PStr ''Darkeroot'')]" "[]" "[]" "[]" None]
  have "\<forall>f. extract_fields [(''name'', PStr ''Darkeroot'')] [] [] [] None = Inr f \<longrightarrow>
          location_role f = PStr ''settlement'' \<and>
          location_summary f = PStr ''A mysterious place'' \<and>
          signature_products f = PList [] \<and>
          character_name f = PStr ''Adventurer'' \<and>
          character_level f = PInt 1 \<and>
          character_background f = PStr ''wanderer'' \<and>
          character_class f = PStr ''unknown'' \<and>
          time_of_day f = PStr ''midday'' \<and>
          weather f = PStr ''clear'' \<and>
          is_wanted f = PBool False \<and>
          early_signs f = PList [] \<and>
          quest_hooks f = []"
    by simp
  with f n show ?thesis by blast
qed

section \<open>The request\<close>

text \<open>
  Claim C9, as amended. An invocation whose extraction of the fields and construction
  of the prompt raise nothing, and which obtains a client, passes exactly one request to
  it, whatever the client answers: model \<^verbatim>\<open>gpt-4o-mini\<close>, a system message that is the
  prompt, a user message naming the scene type and the rendered location name,
  temperature 0.7 and at most 300 tokens. An invocation that obtains no client, or
  whose extraction or prompt construction raises, issues no request; no invocation
  issues more than one.
\<close>

theorem C9_one_request_when_reached:
  "(extract_fields l c ws wb q = Inr f \<and> build_scene_generator_prompt u st f = Inr prompt \<and>
    client = Client remote \<longrightarrow>
      (\<exists>rendered.
         py_str u (dict_get l ''name'' (PStr ''Unknown'')) = Inr rendered \<and>
         fst (generate_scene_description u client st l c ws wb q) =
           [\<lparr>model = ''gpt-4o-mini'',
             messages =
               [(''system'', prompt),
                (''user'', ''Generate scene description for '' @ st @ '' at '' @ rendered)],
             temperature = 7 / 10,
             max_tokens = 300\<rparr>])) \<and>
   (client = ClientRaises \<or> (\<exists>e. extract_fields l c ws wb q = Inl e) \<or>
    (\<exists>g e. extract_fields l c ws wb q = Inr g \<and> build_scene_generator_prompt u st g = Inl e)
      \<longrightarrow> fst (generate_scene_description u client st l c ws wb q) = []) \<and>
   length (fst (generate_scene_description u client st l c ws wb q)) \<le> 1"
proof (intro conjI impI)
  assume a: "extract_fields l c ws wb q = Inr f \<and>
    build_scene_generator_prompt u st f = Inr prompt \<and> client = Client remote"
  then have f: "extract_fields l c ws wb q = Inr f"
    and p: "build_scene_generator_prompt u st f = Inr prompt"
    and cl: "client = Client remote"
    by simp_all
  from build_prompt_renders_name [OF p] obtain rendered where
    r: "py_str u (location_name f) = Inr rendered" by blast
  from generate_client [OF f p r, of remote] cl
  have "fst (generate_scene_description u client st l c ws wb q) =
      [scene_request st rendered prompt]"
    by simp
  with r extract_fields_location [OF f]
  show "\<exists>rendered.
         py_str u (dict_get l ''name'' (PStr ''Unknown'')) = Inr rendered \<and>
         fst (generate_scene_description u client st l c ws wb q) =
           [\<lparr>model = ''gpt-4o-mini'',
             messages =
               [(''system'', prompt),
                (''user'', ''Generate scene description for '' @ st @ '' at '' @ rendered)],
             temperature = 7 / 10,
             max_tokens = 300\<rparr>]"
    by (auto simp: scene_request_def)
next
  have g: "generate_scene_description u client st l c ws wb q =
      (fst (generate_scene_description u client st l c ws wb q),
       snd (generate_scene_description u client st l c ws wb q))"
    by simp
  { assume "client = ClientRaises \<or> (\<exists>e. extract_fields l c ws wb q = Inl e) \<or>
      (\<exists>g e. extract_fields l c ws wb q = Inr g \<and> build_scene_generator_prompt u st g = Inl e)"
    with g show "fst (generate_scene_description u client st l c ws wb q) = []"
      by (cases rule: generate_cases) auto }
  from g show "length (fst (generate_scene_description u client st l c ws wb q)) \<le> 1"
    by (cases rule: generate_cases) auto
qed

text \<open>A run with empty mappings and a client.\<close>

theorem C9_witness:
  "\<exists>prompt.
     fst (generate_scene_description ascii_tables (Client remote_raises) ''arrival'' [] [] [] []
            None) =
      [\<lparr>model = ''gpt-4o-mini'',
        messages =
          [(''system'', prompt),
           (''user'', ''Generate scene description for arrival at Unknown'')],
        temperature = 7 / 10,
        max_tokens = 300\<rparr>]"
proof -
  from prompt_bare [OF bare_defaults, of ascii_tables "''arrival''"] obtain f p where
    "extract_fields [] [] [] [] None = Inr f \<and>
     build_scene_generator_prompt ascii_tables ''arrival'' f = Inr p \<and>
     Client remote_raises = Client remote_raises"
    by blast
  from C9_one_request_when_reached [THEN conjunct1, rule_format, OF this]
  show ?thesis by (auto simp: dict_get_def)
qed

text \<open>
  Claim C9 as stated fails: an invocation with a level that is a string raises before
  any request, and an invocation that cannot obtain a client returns the fallback
  without a request.
\<close>

theorem C9_counterexample:
  "generate_scene_description ascii_tables (Client remote_raises) ''arrival'' []
     [(''level'', PStr ''high'')] [] [] None =
     ([], Inl TypeError) \<and>
   generate_scene_description ascii_tables ClientRaises ''arrival'' [] [] [] [] None =
     ([],
      Inr \<lparr>location = PStr ''Unknown'', description = PStr ''A mysterious place'',
           why_here = ''You have arrived in Unknown seeking adventure and fortune. The world awaits your choices.''\<rparr>)"
proof -
  have "extract_fields [] [(''level'', PStr ''high'')] [] [] None =
      Inr \<lparr>location_name = PStr ''Unknown'', location_role = PStr ''settlement'',
          location_summary = PStr ''A mysterious place'', signature_products = PList [],
          character_name = PStr ''Adventurer'', character_level = PStr ''high'',
          character_background = PStr ''wanderer'', character_class = PStr ''unknown'',
          time_of_day = PStr ''midday'', weather = PStr ''clear'', reputation = PDict [],
          is_wanted = PBool False, early_signs = PList [], quest_hooks = []\<rparr>"
    by (simp add: extract_fields_def dict_get_def py_or_def default_hooks_def)
  moreover have "build_scene_generator_prompt ascii_tables ''arrival''
       \<lparr>location_name = PStr ''Unknown'', location_role = PStr ''settlement'',
          location_summary = PStr ''A mysterious place'', signature_products = PList [],
          character_name = PStr ''Adventurer'', character_level = PStr ''high'',
          character_background = PStr ''wanderer'', character_class = PStr ''unknown'',
          time_of_day = PStr ''midday'', weather = PStr ''clear'', reputation = PDict [],
          is_wanted = PBool False, early_signs = PList [], quest_hooks = []\<rparr> = Inl TypeError"
    by (simp add: build_scene_generator_prompt_def level_not_comparable)
  ultimately have a: "generate_scene_description ascii_tables (Client remote_raises) ''arrival''
      [] [(''level'', PStr ''high'')] [] [] None = ([], Inl TypeError)"
    by (rule generate_prompt_error)
  from prompt_bare [OF bare_defaults, of ascii_tables "''arrival''"] obtain f p where
    f: "extract_fields [] [] [] [] None = Inr f" and
    p: "build_scene_generator_prompt ascii_tables ''arrival'' f = Inr p" and
    n: "location_name f = PStr ''Unknown''" and
    s: "location_summary f = PStr ''A mysterious place''"
    by blast
  from n have "py_str ascii_tables (location_name f) = Inr ''Unknown''" by simp
  from generate_no_client [OF f p this] n s a show ?thesis by simp
qed

section \<open>Exceptions before the remote call\<close>

text \<open>
  Claim C10. An exception raised by the extraction of the fields or by the construction
  of the prompt leaves the function: no request is issued and no fallback is returned,
  whatever the client would do.
\<close>

theorem C10_errors_before_try_propagate:
  assumes "extract_fields l c w b q = Inl e \<or>
           (\<exists>f. extract_fields l c w b q = Inr f \<and> build_scene_generator_prompt u st f = Inl e)"
  shows "generate_scene_description u client st l c w b q = ([], Inl e)"
  using assms by (auto simp: generate_extract_error generate_prompt_error)

text \<open>
  A level that is a string, a quest hook whose type is a number, and a
  \<^verbatim>\<open>global_threat\<close> that is \<^verbatim>\<open>None\<close>.
\<close>

theorem C10_witness:
  "generate_scene_description ascii_tables (Client remote_raises) ''arrival'' []
     [(''level'', PStr ''high'')] [] [] None =
     ([], Inl TypeError) \<and>
   generate_scene_description ascii_tables (Client remote_raises) ''arrival'' [] [] [] []
     (Some [[(''type'', PInt 5)]]) =
     ([], Inl AttributeError) \<and>
   generate_scene_description ascii_tables (Client remote_raises) ''arrival'' [] [] []
     [(''global_threat'', PNone)] None =
     ([], Inl AttributeError)"
proof -
  have "\<exists>f. extract_fields [] [(''level'', PStr ''high'')] [] [] None = Inr f \<and>
          build_scene_generator_prompt ascii_tables ''arrival'' f = Inl TypeError"
    by (simp add: extract_fields_def dict_get_def build_scene_generator_prompt_def
        level_not_comparable)
  then have a: "generate_scene_description ascii_tables (Client remote_raises) ''arrival'' []
      [(''level'', PStr ''high'')] [] [] None = ([], Inl TypeError)"
    by (intro C10_errors_before_try_propagate disjI2)
  have "\<exists>f. extract_fields [] [] [] [] (Some [[(''type'', PInt 5)]]) = Inr f \<and>
          build_scene_generator_prompt ascii_tables ''arrival'' f = Inl AttributeError"
    by (simp add: extract_fields_def dict_get_def build_scene_generator_prompt_def
        experience_level_int hooks_text_def hook_line_def default_hooks_def)
  then have b: "generate_scene_description ascii_tables (Client remote_raises) ''arrival'' []
      [] [] [] (Some [[(''type'', PInt 5)]]) = ([], Inl AttributeError)"
    by (intro C10_errors_before_try_propagate disjI2)
  have "extract_fields [] [] [] [(''global_threat'', PNone)] None = Inl AttributeError"
    by (simp add: extract_fields_def dict_get_def)
  then have c: "generate_scene_description ascii_tables (Client remote_raises) ''arrival'' []
      [] [] [(''global_threat'', PNone)] None = ([], Inl AttributeError)"
    by (intro C10_errors_before_try_propagate disjI1)
  from a b c show ?thesis by simp
qed

end
